theory Spec2Isabelle
  imports Main "HOL-Library.Word" "HOL-Library.Product_Lexorder"
begin

section \<open>Positions and locations\<close>

text \<open>
  The syntax tree of thrift-ls: the package \<^verbatim>\<open>parser\<close>, the second source text in
  \<^verbatim>\<open>src/lsp/symbols/field.go\<close>. Go's \<^verbatim>\<open>int\<close> is taken at its 64-bit width: a
  \<^typ>\<open>64 word\<close> that is compared as a signed number (\<open><s\<close>, \<open>\<le>s\<close>) and whose
  arithmetic wraps around. A Go \<^verbatim>\<open>string\<close> is its sequence of bytes, a \<^typ>\<open>string\<close>.
\<close>

type_synonym go_int = "64 word"

text \<open>
  \<^verbatim>\<open>position\<close> and \<^verbatim>\<open>current\<close> are the types of the generated parser
  (they are declared outside the file); the code reads the fields \<^verbatim>\<open>line\<close>,
  \<^verbatim>\<open>col\<close>, \<^verbatim>\<open>offset\<close> of the one and \<^verbatim>\<open>pos\<close>, \<^verbatim>\<open>text\<close> of the other
  (\<open>c_pos\<close> and \<open>c_text\<close> here).
\<close>

record position =
  line :: go_int
  col :: go_int
  offset :: go_int

record current =
  c_pos :: position
  c_text :: string

record Position =
  Line :: go_int
  Col :: go_int
  Offset :: go_int

record Location =
  StartPos :: Position
  EndPos :: Position

definition InvalidPosition :: Position where
  "InvalidPosition = \<lparr>Line = - 1, Col = - 1, Offset = - 1\<rparr>"

definition ConvertPosition :: "position \<Rightarrow> Position" where
  "ConvertPosition p = \<lparr>Line = line p, Col = col p, Offset = offset p\<rparr>"

definition Less :: "Position \<Rightarrow> Position \<Rightarrow> bool" where
  "Less p other =
     (if Line p <s Line other then True
      else if Line p = Line other then Col p <s Col other
      else False)"

definition Equal :: "Position \<Rightarrow> Position \<Rightarrow> bool" where
  "Equal p other = (Line p = Line other \<and> Col p = Col other)"

definition Greater :: "Position \<Rightarrow> Position \<Rightarrow> bool" where
  "Greater p other =
     (if Line other <s Line p then True
      else if Line p = Line other then Col other <s Col p
      else False)"

definition Invalid :: "Position \<Rightarrow> bool" where
  "Invalid p = (Line p <s 1 \<or> Col p <s 1 \<or> Offset p <s 0)"

text \<open>The receiver of \<^verbatim>\<open>Contains\<close> is a pointer; \<open>None\<close> is the nil pointer.\<close>

definition Contains :: "Location option \<Rightarrow> Position \<Rightarrow> bool" where
  "Contains l p =
     (case l of
        None \<Rightarrow> False
      | Some loc \<Rightarrow> (Less (StartPos loc) p \<or> Equal (StartPos loc) p) \<and> Greater (EndPos loc) p)"

definition NewLocationFromPos :: "Position \<Rightarrow> Position \<Rightarrow> Location" where
  "NewLocationFromPos start end' = \<lparr>StartPos = start, EndPos = end'\<rparr>"

definition MoveStartInLine :: "Location \<Rightarrow> go_int \<Rightarrow> Location" where
  "MoveStartInLine l n =
     l\<lparr>StartPos := (StartPos l)\<lparr>Col := Col (StartPos l) + n, Offset := Offset (StartPos l) + n\<rparr>\<rparr>"

subsection \<open>The library functions that \<^verbatim>\<open>NewLocation\<close> calls\<close>

text \<open>
  \<^verbatim>\<open>strings.Count(text, "\n")\<close>: the number of bytes of the text that are the line feed.
  \<^verbatim>\<open>strings.LastIndexByte\<close>: the index of the last such byte, or \<open>-1\<close>.
\<close>

definition newline :: char where
  "newline = CHR 0x0A"

definition strings_Count :: "string \<Rightarrow> char \<Rightarrow> nat" where
  "strings_Count s c = length (filter (\<lambda>x. x = c) s)"

fun LastIndexFrom :: "int \<Rightarrow> string \<Rightarrow> char \<Rightarrow> int" where
  "LastIndexFrom i [] c = - 1"
| "LastIndexFrom i (x # xs) c =
     (let r = LastIndexFrom (i + 1) xs c
      in if r \<noteq> - 1 then r else if x = c then i else - 1)"

definition strings_LastIndexByte :: "string \<Rightarrow> char \<Rightarrow> int" where
  "strings_LastIndexByte s c = LastIndexFrom 0 s c"

text \<open>
  \<^verbatim>\<open>utf8.RuneCount\<close>: the number of runes of a byte sequence, where a byte that does not
  start a well-formed encoding, and an encoding cut short, count as one rune of one byte.
  \<open>utf8_first\<close> is the library's table of leading bytes: the length of the encoding
  and the range accepted for its second byte.
\<close>

definition utf8_first :: "nat \<Rightarrow> (nat \<times> nat \<times> nat) option" where
  "utf8_first b =
     (if 0xC2 \<le> b \<and> b \<le> 0xDF then Some (2, 0x80, 0xBF)
      else if b = 0xE0 then Some (3, 0xA0, 0xBF)
      else if 0xE1 \<le> b \<and> b \<le> 0xEC then Some (3, 0x80, 0xBF)
      else if b = 0xED then Some (3, 0x80, 0x9F)
      else if b = 0xEE \<or> b = 0xEF then Some (3, 0x80, 0xBF)
      else if b = 0xF0 then Some (4, 0x90, 0xBF)
      else if 0xF1 \<le> b \<and> b \<le> 0xF3 then Some (4, 0x80, 0xBF)
      else if b = 0xF4 then Some (4, 0x80, 0x8F)
      else None)"

definition utf8_cont :: "char \<Rightarrow> bool" where
  "utf8_cont c = (0x80 \<le> (of_char c :: nat) \<and> (of_char c :: nat) \<le> 0xBF)"

definition rune_width :: "char \<Rightarrow> string \<Rightarrow> nat" where
  "rune_width c p =
     (if (of_char c :: nat) < 0x80 then 1
      else case utf8_first (of_char c) of
        None \<Rightarrow> 1
      | Some (sz, lo, hi) \<Rightarrow>
          if Suc (length p) < sz then 1
          else (case p of
            [] \<Rightarrow> 1
          | c1 # p1 \<Rightarrow>
              if (of_char c1 :: nat) < lo \<or> hi < (of_char c1 :: nat) then 1
              else if sz = 2 then 2
              else (case p1 of
                [] \<Rightarrow> 1
              | c2 # p2 \<Rightarrow>
                  if \<not> utf8_cont c2 then 1
                  else if sz = 3 then 3
                  else (case p2 of
                    [] \<Rightarrow> 1
                  | c3 # p3 \<Rightarrow> if \<not> utf8_cont c3 then 1 else 4))))"

fun RuneCount :: "string \<Rightarrow> nat" where
  "RuneCount [] = 0"
| "RuneCount (c # p) = Suc (RuneCount (drop (rune_width c p - 1) p))"

subsection \<open>\<^verbatim>\<open>NewLocation\<close>\<close>

definition NewLocation :: "position \<Rightarrow> string \<Rightarrow> Location" where
  "NewLocation startPos txt =
     (let start = ConvertPosition startPos;
          nLine0 = (of_nat (strings_Count txt newline) :: go_int);
          nLine = (if col startPos = 0 then nLine0 - 1 else nLine0);
          lastLineOffset0 = strings_LastIndexByte txt newline;
          lastLineOffset = (if lastLineOffset0 = - 1 then 0 else lastLineOffset0);
          lastLine = drop (nat lastLineOffset) txt;
          col0 = (of_nat (RuneCount lastLine) :: go_int) + 1;
          col1 = (if nLine = 0 then col0 + (Col start - 1) else col0)
      in \<lparr>StartPos = start,
          EndPos = \<lparr>Line = Line start + nLine, Col = col1,
                    Offset = Offset start + of_nat (length txt)\<rparr>\<rparr>)"

definition NewLocationFromCurrent :: "current \<Rightarrow> Location" where
  "NewLocationFromCurrent c = NewLocation (c_pos c) (c_text c)"

text \<open>The order of positions that the specification names: by line, then by column.\<close>

definition line_col :: "Position \<Rightarrow> int \<times> int" where
  "line_col p = (sint (Line p), sint (Col p))"

section \<open>The node types\<close>

text \<open>
  A Go struct is a record (a datatype where the struct refers to itself), a pointer
  \<^verbatim>\<open>*T\<close> is a \<^typ>\<open>'a option\<close> with \<open>None\<close> for nil, and a slice \<^verbatim>\<open>[]*T\<close> is a list of
  such pointers. A field that a constructor leaves out has Go's zero value: the empty
  string, nil, the empty slice, \<open>False\<close>, \<open>0\<close>. Fields of different structs share
  their names, as in the source, and are told apart by the record's name
  (\<open>Struct.BadNode\<close>, \<open>Field.BadNode\<close>).
\<close>

definition zero_Position :: Position where
  "zero_Position = \<lparr>Line = 0, Col = 0, Offset = 0\<rparr>"

definition zero_Location :: Location where
  "zero_Location = \<lparr>StartPos = zero_Position, EndPos = zero_Position\<rparr>"

type_synonym CommentStyle = string

definition CommentStyleShell :: CommentStyle where
  "CommentStyleShell = ''shell''"

definition CommentStyleMultiLine :: CommentStyle where
  "CommentStyleMultiLine = ''multiline''"

definition CommentStyleSingleLine :: CommentStyle where
  "CommentStyleSingleLine = ''singleline''"

record Comment =
  Text :: string
  Style :: CommentStyle
  BadNode :: bool
  Location :: Location

record KeywordLiteral =
  Text :: string
  BadNode :: bool
  Location :: Location

record Keyword =
  Comments :: "Comment option list"
  Literal :: "KeywordLiteral option"
  BadNode :: bool
  Location :: Location

text \<open>
  The keyword types (\<^verbatim>\<open>type StructKeyword struct { Keyword }\<close> and its like) embed
  \<^verbatim>\<open>Keyword\<close> and add nothing but their \<^verbatim>\<open>Type()\<close>: each is a \<^typ>\<open>Keyword\<close> here, and
  a node of such a type carries the \<open>KeywordKind\<close> that names it.
\<close>

datatype KeywordKind =
    K_IncludeKeyword | K_CPPIncludeKeyword | K_NamespaceKeyword | K_StructKeyword
  | K_LCurKeyword | K_RCurKeyword | K_ConstKeyword | K_EqualKeyword | K_TypedefKeyword
  | K_EnumKeyword | K_ServiceKeyword | K_ExtendsKeyword | K_OnewayKeyword | K_LParKeyword
  | K_RParKeyword | K_VoidKeyword | K_ThrowsKeyword | K_UnionKeyword | K_ExceptionKeyword
  | K_ColonKeyword | K_RequiredKeyword | K_LPointKeyword | K_RPointKeyword | K_CommaKeyword
  | K_CppTypeKeyword | K_LBrkKeyword | K_RBrkKeyword

record ListSeparatorKeyword =
  Keyword :: Keyword
  Text :: string

record IdentifierName =
  Text :: string
  BadNode :: bool
  Location :: Location

record Identifier =
  Name :: "IdentifierName option"
  Comments :: "Comment option list"
  BadNode :: bool
  Location :: Location

record LiteralValue =
  Text :: string
  BadNode :: bool
  Location :: Location

record Literal =
  Value :: "LiteralValue option"
  Quote :: string
  Comments :: "Comment option list"
  BadNode :: bool
  Location :: Location

record Annotation =
  EqualKeyword :: "Keyword option"
  ListSeparatorKeyword :: "ListSeparatorKeyword option"
  Identifier :: "Identifier option"
  Value :: "Literal option"
  BadNode :: bool
  Location :: Location

record Annotations =
  Annotations :: "Annotation option list"
  LParKeyword :: "Keyword option"
  RParKeyword :: "Keyword option"
  BadNode :: bool
  Location :: Location

record TypeName =
  Name :: string
  Comments :: "Comment option list"
  BadNode :: bool
  Location :: Location

record CppType =
  CppTypeKeyword :: "Keyword option"
  Literal :: "Literal option"
  BadNode :: bool
  Location :: Location

datatype FieldType = MkFieldType
  (TypeName: "TypeName option")
  (KeyType: "FieldType option")
  (ValueType: "FieldType option")
  (CppType: "CppType option")
  (LPointKeyword: "Keyword option")
  (RPointKeyword: "Keyword option")
  (CommaKeyword: "Keyword option")
  (Annotations: "Annotations option")
  (BadNode: bool)
  (Location: Location)

text \<open>
  The slots \<^verbatim>\<open>Value\<close> and \<^verbatim>\<open>Key\<close> of a \<^verbatim>\<open>ConstValue\<close> have the type \<^verbatim>\<open>any\<close>. The
  values they can hold are the untyped nil, a 64-bit integer, a double (its 64 bits), a
  string, a pointer to a \<^verbatim>\<open>ConstValue\<close> and a slice of such pointers.
\<close>

datatype AnyValue =
    AnyNil
  | AnyInt64 "64 word"
  | AnyFloat64 "64 word"
  | AnyString string
  | AnyConstValue "ConstValue option"
  | AnyConstValues "ConstValue option list"
and ConstValue = MkConstValue
  (TypeName: string)
  (Value: AnyValue)
  (ValueInText: string)
  (Key: AnyValue)
  (LBrkKeyword: "Keyword option")
  (RBrkKeyword: "Keyword option")
  (LCurKeyword: "Keyword option")
  (RCurKeyword: "Keyword option")
  (ListSeparatorKeyword: "ListSeparatorKeyword option")
  (ColonKeyword: "Keyword option")
  (Comments: "Comment option list")
  (BadNode: bool)
  (Location: Location)

record FieldIndex =
  ColonKeyword :: "Keyword option"
  Value :: go_int
  Comments :: "Comment option list"
  BadNode :: bool
  Location :: Location

record Field =
  Index :: "FieldIndex option"
  RequiredKeyword :: "Keyword option"
  FieldType :: "FieldType option"
  Identifier :: "Identifier option"
  ConstValue :: "ConstValue option"
  EqualKeyword :: "Keyword option"
  ListSeparatorKeyword :: "ListSeparatorKeyword option"
  Comments :: "Comment option list"
  EndLineComments :: "Comment option list"
  Annotations :: "Annotations option"
  BadNode :: bool
  Location :: Location

record Throws =
  ThrowsKeyword :: "Keyword option"
  LParKeyword :: "Keyword option"
  RParKeyword :: "Keyword option"
  Fields :: "Field option list"
  BadNode :: bool
  Location :: Location

record Function =
  LParKeyword :: "Keyword option"
  RParKeyword :: "Keyword option"
  ListSeparatorKeyword :: "ListSeparatorKeyword option"
  Name :: "Identifier option"
  Oneway :: "Keyword option"
  Void :: "Keyword option"
  FunctionType :: "FieldType option"
  Arguments :: "Field option list"
  Throws :: "Throws option"
  Comments :: "Comment option list"
  EndLineComments :: "Comment option list"
  Annotations :: "Annotations option"
  BadNode :: bool
  Location :: Location

record Struct =
  StructKeyword :: "Keyword option"
  LCurKeyword :: "Keyword option"
  RCurKeyword :: "Keyword option"
  Identifier :: "Identifier option"
  Fields :: "Field option list"
  Comments :: "Comment option list"
  EndLineComments :: "Comment option list"
  Annotations :: "Annotations option"
  BadNode :: bool
  Location :: Location

record Union =
  UnionKeyword :: "Keyword option"
  LCurKeyword :: "Keyword option"
  RCurKeyword :: "Keyword option"
  Name :: "Identifier option"
  Fields :: "Field option list"
  Comments :: "Comment option list"
  EndLineComments :: "Comment option list"
  Annotations :: "Annotations option"
  BadNode :: bool
  Location :: Location

record Exception =
  ExceptionKeyword :: "Keyword option"
  LCurKeyword :: "Keyword option"
  RCurKeyword :: "Keyword option"
  Name :: "Identifier option"
  Fields :: "Field option list"
  Comments :: "Comment option list"
  EndLineComments :: "Comment option list"
  Annotations :: "Annotations option"
  BadNode :: bool
  Location :: Location

record EnumValue =
  ListSeparatorKeyword :: "ListSeparatorKeyword option"
  EqualKeyword :: "Keyword option"
  Name :: "Identifier option"
  ValueNode :: "ConstValue option"
  Value :: "64 word"
  Annotations :: "Annotations option"
  Comments :: "Comment option list"
  EndLineComments :: "Comment option list"
  BadNode :: bool
  Location :: Location

record Enum =
  EnumKeyword :: "Keyword option"
  LCurKeyword :: "Keyword option"
  RCurKeyword :: "Keyword option"
  Name :: "Identifier option"
  Values :: "EnumValue option list"
  Comments :: "Comment option list"
  EndLineComments :: "Comment option list"
  Annotations :: "Annotations option"
  BadNode :: bool
  Location :: Location

record Service =
  ServiceKeyword :: "Keyword option"
  ExtendsKeyword :: "Keyword option"
  LCurKeyword :: "Keyword option"
  RCurKeyword :: "Keyword option"
  Name :: "Identifier option"
  Extends :: "Identifier option"
  Functions :: "Function option list"
  Comments :: "Comment option list"
  EndLineComments :: "Comment option list"
  Annotations :: "Annotations option"
  BadNode :: bool
  Location :: Location

record Const =
  ConstKeyword :: "Keyword option"
  EqualKeyword :: "Keyword option"
  ListSeparatorKeyword :: "ListSeparatorKeyword option"
  Name :: "Identifier option"
  ConstType :: "FieldType option"
  Value :: "ConstValue option"
  Comments :: "Comment option list"
  EndLineComments :: "Comment option list"
  Annotations :: "Annotations option"
  BadNode :: bool
  Location :: Location

record Typedef =
  TypedefKeyword :: "Keyword option"
  T :: "FieldType option"
  Alias :: "Identifier option"
  Comments :: "Comment option list"
  EndLineComments :: "Comment option list"
  Annotations :: "Annotations option"
  BadNode :: bool
  Location :: Location

record Include =
  IncludeKeyword :: "Keyword option"
  Path :: "Literal option"
  Comments :: "Comment option list"
  EndLineComments :: "Comment option list"
  BadNode :: bool
  Location :: Location

record CPPInclude =
  CPPIncludeKeyword :: "Keyword option"
  Path :: "Literal option"
  Comments :: "Comment option list"
  EndLineComments :: "Comment option list"
  BadNode :: bool
  Location :: Location

record Namespace =
  NamespaceKeyword :: "Keyword option"
  Language :: "Identifier option"
  Name :: "Identifier option"
  Annotations :: "Annotations option"
  Comments :: "Comment option list"
  EndLineComments :: "Comment option list"
  BadNode :: bool
  Location :: Location

record BadHeader =
  BadNode :: bool
  Location :: Location

record BadDefinition =
  BadNode :: bool
  Location :: Location

text \<open>
  A value of the interface \<^verbatim>\<open>Node\<close> is a pointer of one of the types that implement
  it; the pointer may be nil, as the entries are that \<^verbatim>\<open>Children()\<close> makes from nil fields.
  \<^verbatim>\<open>NamespaceScope\<close> embeds \<^verbatim>\<open>Identifier\<close> and adds nothing. A \<^verbatim>\<open>Document\<close> holds a
  slice of nodes and is a node itself. The interface value that holds no pointer at all
  is not among the nodes: no constructor and no \<^verbatim>\<open>Children()\<close> of the source makes one.
\<close>

datatype Node =
    N_Document "Document option"
  | N_BadHeader "BadHeader option"
  | N_KeywordLiteral "KeywordLiteral option"
  | N_Keyword KeywordKind "Keyword option"
  | N_ListSeparatorKeyword "ListSeparatorKeyword option"
  | N_Include "Include option"
  | N_CPPInclude "CPPInclude option"
  | N_Namespace "Namespace option"
  | N_NamespaceScope "Identifier option"
  | N_BadDefinition "BadDefinition option"
  | N_Struct "Struct option"
  | N_Const "Const option"
  | N_Typedef "Typedef option"
  | N_Enum "Enum option"
  | N_EnumValue "EnumValue option"
  | N_Service "Service option"
  | N_Throws "Throws option"
  | N_Function "Function option"
  | N_Union "Union option"
  | N_Exception "Exception option"
  | N_IdentifierName "IdentifierName option"
  | N_Identifier "Identifier option"
  | N_Field "Field option"
  | N_FieldIndex "FieldIndex option"
  | N_CppType "CppType option"
  | N_FieldType "FieldType option"
  | N_TypeName "TypeName option"
  | N_ConstValue "ConstValue option"
  | N_LiteralValue "LiteralValue option"
  | N_Literal "Literal option"
  | N_Annotations "Annotations option"
  | N_Annotation "Annotation option"
  | N_Comment "Comment option"
and Document = MkDocument
  (Filename: string)
  (BadHeaders: "BadHeader option list")
  (Includes: "Include option list")
  (CPPIncludes: "CPPInclude option list")
  (Namespaces: "Namespace option list")
  (Consts: "Const option list")
  (Typedefs: "Typedef option list")
  (Enums: "Enum option list")
  (Services: "Service option list")
  (Structs: "Struct option list")
  (Unions: "Union option list")
  (Exceptions: "Exception option list")
  (BadDefinitions: "BadDefinition option list")
  (Comments: "Comment option list")
  (Nodes: "Node list")
  (Location: Location)

section \<open>Constructors\<close>

text \<open>
  Each constructor of the source, with every field it does not name at its zero value.
  \<^verbatim>\<open>NewBadEqualKeyword\<close> returns a pointer to an \<^verbatim>\<open>EqualKeyword\<close>, which is a
  \<^typ>\<open>Keyword\<close> here.
\<close>

definition NewBadHeader :: "Location \<Rightarrow> BadHeader" where
  "NewBadHeader loc =
     \<lparr>BadHeader.BadNode = True, BadHeader.Location = loc\<rparr>"

definition NewKeywordLiteral :: "current \<Rightarrow> KeywordLiteral" where
  "NewKeywordLiteral c =
     \<lparr>KeywordLiteral.Text = c_text c, KeywordLiteral.BadNode = False,
      KeywordLiteral.Location = NewLocationFromCurrent c\<rparr>"

definition NewBadKeywordLiteral :: "current \<Rightarrow> KeywordLiteral" where
  "NewBadKeywordLiteral c =
     \<lparr>KeywordLiteral.Text = c_text c, KeywordLiteral.BadNode = True,
      KeywordLiteral.Location = NewLocationFromCurrent c\<rparr>"

definition NewKeyword ::
  "Comment option list \<Rightarrow> KeywordLiteral option \<Rightarrow> Location \<Rightarrow>
   Keyword" where
  "NewKeyword comments literal loc =
     \<lparr>Keyword.Comments = comments, Keyword.Literal = literal, Keyword.BadNode = False,
      Keyword.Location = loc\<rparr>"

definition NewBadEqualKeyword :: "Keyword" where
  "NewBadEqualKeyword =
     \<lparr>Keyword.Comments = [], Keyword.Literal = None, Keyword.BadNode = True,
      Keyword.Location = zero_Location\<rparr>"

definition NewInclude ::
  "Keyword option \<Rightarrow> Literal option \<Rightarrow> Location \<Rightarrow>
   Include" where
  "NewInclude keyword path loc =
     \<lparr>Include.IncludeKeyword = keyword, Include.Path = path, Include.Comments = [],
      Include.EndLineComments = [], Include.BadNode = False, Include.Location = loc\<rparr>"

definition NewBadInclude :: "Location \<Rightarrow> Include" where
  "NewBadInclude loc =
     \<lparr>Include.IncludeKeyword = None, Include.Path = None, Include.Comments = [],
      Include.EndLineComments = [], Include.BadNode = True, Include.Location = loc\<rparr>"

definition NewCPPInclude ::
  "Keyword option \<Rightarrow> Literal option \<Rightarrow> Location \<Rightarrow>
   CPPInclude" where
  "NewCPPInclude keyword path loc =
     \<lparr>CPPInclude.CPPIncludeKeyword = keyword, CPPInclude.Path = path,
      CPPInclude.Comments = [], CPPInclude.EndLineComments = [], CPPInclude.BadNode = False,
      CPPInclude.Location = loc\<rparr>"

definition NewBadCPPInclude :: "Location \<Rightarrow> CPPInclude" where
  "NewBadCPPInclude loc =
     \<lparr>CPPInclude.CPPIncludeKeyword = None, CPPInclude.Path = None,
      CPPInclude.Comments = [], CPPInclude.EndLineComments = [], CPPInclude.BadNode = True,
      CPPInclude.Location = loc\<rparr>"

definition NewNamespace ::
  "Keyword option \<Rightarrow> Identifier option \<Rightarrow> Identifier option \<Rightarrow>
   Annotations option \<Rightarrow> Location \<Rightarrow> Namespace" where
  "NewNamespace keyword language name annotations loc =
     \<lparr>Namespace.NamespaceKeyword = keyword, Namespace.Language = language,
      Namespace.Name = name, Namespace.Annotations = annotations, Namespace.Comments = [],
      Namespace.EndLineComments = [], Namespace.BadNode = False,
      Namespace.Location = loc\<rparr>"

definition NewBadNamespace :: "Location \<Rightarrow> Namespace" where
  "NewBadNamespace loc =
     \<lparr>Namespace.NamespaceKeyword = None, Namespace.Language = None,
      Namespace.Name = None, Namespace.Annotations = None, Namespace.Comments = [],
      Namespace.EndLineComments = [], Namespace.BadNode = True,
      Namespace.Location = loc\<rparr>"

definition NewBadDefinition :: "Location \<Rightarrow> BadDefinition" where
  "NewBadDefinition loc =
     \<lparr>BadDefinition.BadNode = True, BadDefinition.Location = loc\<rparr>"

definition NewStruct ::
  "Keyword option \<Rightarrow> Keyword option \<Rightarrow> Keyword option \<Rightarrow>
   Identifier option \<Rightarrow> Field option list \<Rightarrow> Location \<Rightarrow>
   Struct" where
  "NewStruct structKeyword lCurKeyword rCurKeyword identifier flds loc =
     \<lparr>Struct.StructKeyword = structKeyword, Struct.LCurKeyword = lCurKeyword,
      Struct.RCurKeyword = rCurKeyword, Struct.Identifier = identifier, Struct.Fields = flds,
      Struct.Comments = [], Struct.EndLineComments = [], Struct.Annotations = None,
      Struct.BadNode = False, Struct.Location = loc\<rparr>"

definition NewBadStruct :: "Location \<Rightarrow> Struct" where
  "NewBadStruct loc =
     \<lparr>Struct.StructKeyword = None, Struct.LCurKeyword = None, Struct.RCurKeyword = None,
      Struct.Identifier = None, Struct.Fields = [], Struct.Comments = [],
      Struct.EndLineComments = [], Struct.Annotations = None, Struct.BadNode = True,
      Struct.Location = loc\<rparr>"

definition NewConst ::
  "Keyword option \<Rightarrow> Keyword option \<Rightarrow>
   ListSeparatorKeyword option \<Rightarrow> Identifier option \<Rightarrow>
   FieldType option \<Rightarrow> ConstValue option \<Rightarrow> Location \<Rightarrow>
   Const" where
  "NewConst constKeyword equalKeyword listSeparatorKeyword name t v loc =
     \<lparr>Const.ConstKeyword = constKeyword, Const.EqualKeyword = equalKeyword,
      Const.ListSeparatorKeyword = listSeparatorKeyword, Const.Name = name,
      Const.ConstType = t, Const.Value = v, Const.Comments = [], Const.EndLineComments = [],
      Const.Annotations = None, Const.BadNode = False, Const.Location = loc\<rparr>"

definition NewBadConst :: "Location \<Rightarrow> Const" where
  "NewBadConst loc =
     \<lparr>Const.ConstKeyword = None, Const.EqualKeyword = None,
      Const.ListSeparatorKeyword = None, Const.Name = None, Const.ConstType = None,
      Const.Value = None, Const.Comments = [], Const.EndLineComments = [],
      Const.Annotations = None, Const.BadNode = True, Const.Location = loc\<rparr>"

definition NewTypedef ::
  "Keyword option \<Rightarrow> FieldType option \<Rightarrow> Identifier option \<Rightarrow>
   Location \<Rightarrow> Typedef" where
  "NewTypedef keyword t alias loc =
     \<lparr>Typedef.TypedefKeyword = keyword, Typedef.T = t, Typedef.Alias = alias,
      Typedef.Comments = [], Typedef.EndLineComments = [], Typedef.Annotations = None,
      Typedef.BadNode = False, Typedef.Location = loc\<rparr>"

definition NewBadTypedef :: "Location \<Rightarrow> Typedef" where
  "NewBadTypedef loc =
     \<lparr>Typedef.TypedefKeyword = None, Typedef.T = None, Typedef.Alias = None,
      Typedef.Comments = [], Typedef.EndLineComments = [], Typedef.Annotations = None,
      Typedef.BadNode = True, Typedef.Location = loc\<rparr>"

definition NewEnum ::
  "Keyword option \<Rightarrow> Keyword option \<Rightarrow> Keyword option \<Rightarrow>
   Identifier option \<Rightarrow> EnumValue option list \<Rightarrow> Location \<Rightarrow>
   Enum" where
  "NewEnum enumKeyword lCurKeyword rCurKeyword name vals loc =
     \<lparr>Enum.EnumKeyword = enumKeyword, Enum.LCurKeyword = lCurKeyword,
      Enum.RCurKeyword = rCurKeyword, Enum.Name = name, Enum.Values = vals, Enum.Comments = [],
      Enum.EndLineComments = [], Enum.Annotations = None, Enum.BadNode = False,
      Enum.Location = loc\<rparr>"

definition NewBadEnum :: "Location \<Rightarrow> Enum" where
  "NewBadEnum loc =
     \<lparr>Enum.EnumKeyword = None, Enum.LCurKeyword = None, Enum.RCurKeyword = None,
      Enum.Name = None, Enum.Values = [], Enum.Comments = [], Enum.EndLineComments = [],
      Enum.Annotations = None, Enum.BadNode = True, Enum.Location = loc\<rparr>"

definition NewBadEnumValue :: "Location \<Rightarrow> EnumValue" where
  "NewBadEnumValue loc =
     \<lparr>EnumValue.ListSeparatorKeyword = None, EnumValue.EqualKeyword = None,
      EnumValue.Name = None, EnumValue.ValueNode = None, EnumValue.Value = 0,
      EnumValue.Annotations = None, EnumValue.Comments = [], EnumValue.EndLineComments = [],
      EnumValue.BadNode = True, EnumValue.Location = loc\<rparr>"

definition NewEnumValue ::
  "ListSeparatorKeyword option \<Rightarrow> Keyword option \<Rightarrow>
   Identifier option \<Rightarrow> ConstValue option \<Rightarrow> 64 word \<Rightarrow>
   Annotations option \<Rightarrow> Location \<Rightarrow> EnumValue" where
  "NewEnumValue listSeparatorKeyword equalKeyword name valueNode v annotations loc =
     \<lparr>EnumValue.ListSeparatorKeyword = listSeparatorKeyword,
      EnumValue.EqualKeyword = equalKeyword, EnumValue.Name = name,
      EnumValue.ValueNode = valueNode, EnumValue.Value = v,
      EnumValue.Annotations = annotations, EnumValue.Comments = [],
      EnumValue.EndLineComments = [], EnumValue.BadNode = False,
      EnumValue.Location = loc\<rparr>"

definition NewService ::
  "Keyword option \<Rightarrow> Keyword option \<Rightarrow> Keyword option \<Rightarrow>
   Keyword option \<Rightarrow> Identifier option \<Rightarrow> Identifier option \<Rightarrow>
   Function option list \<Rightarrow> Location \<Rightarrow> Service" where
  "NewService serviceKeyword extendsKeyword lCurKeyword rCurKeyword name extends fns
     loc =
     \<lparr>Service.ServiceKeyword = serviceKeyword, Service.ExtendsKeyword = extendsKeyword,
      Service.LCurKeyword = lCurKeyword, Service.RCurKeyword = rCurKeyword,
      Service.Name = name, Service.Extends = extends, Service.Functions = fns,
      Service.Comments = [], Service.EndLineComments = [], Service.Annotations = None,
      Service.BadNode = False, Service.Location = loc\<rparr>"

definition NewBadService :: "Location \<Rightarrow> Service" where
  "NewBadService loc =
     \<lparr>Service.ServiceKeyword = None, Service.ExtendsKeyword = None,
      Service.LCurKeyword = None, Service.RCurKeyword = None, Service.Name = None,
      Service.Extends = None, Service.Functions = [], Service.Comments = [],
      Service.EndLineComments = [], Service.Annotations = None, Service.BadNode = True,
      Service.Location = loc\<rparr>"

definition NewThrows ::
  "Keyword option \<Rightarrow> Keyword option \<Rightarrow> Keyword option \<Rightarrow>
   Field option list \<Rightarrow> Location \<Rightarrow> Throws" where
  "NewThrows throwsKeyword lparKeyword rparKeyword flds loc =
     \<lparr>Throws.ThrowsKeyword = throwsKeyword, Throws.LParKeyword = lparKeyword,
      Throws.RParKeyword = rparKeyword, Throws.Fields = flds, Throws.BadNode = False,
      Throws.Location = loc\<rparr>"

definition NewFunction ::
  "Keyword option \<Rightarrow> Keyword option \<Rightarrow>
   ListSeparatorKeyword option \<Rightarrow> Identifier option \<Rightarrow>
   Keyword option \<Rightarrow> Keyword option \<Rightarrow> FieldType option \<Rightarrow>
   Field option list \<Rightarrow> Throws option \<Rightarrow>
   Comment option list \<Rightarrow> Comment option list \<Rightarrow>
   Annotations option \<Rightarrow> Location \<Rightarrow> Function" where
  "NewFunction lParKeyword rParKeyword listSeparatorKeyword name oneway void ft args throws
     comments endlineComments annotations loc =
     \<lparr>Function.LParKeyword = lParKeyword, Function.RParKeyword = rParKeyword,
      Function.ListSeparatorKeyword = listSeparatorKeyword, Function.Name = name,
      Function.Oneway = oneway, Function.Void = void, Function.FunctionType = ft,
      Function.Arguments = args, Function.Throws = throws, Function.Comments = comments,
      Function.EndLineComments = endlineComments, Function.Annotations = annotations,
      Function.BadNode = False, Function.Location = loc\<rparr>"

definition NewBadFunction :: "Location \<Rightarrow> Function" where
  "NewBadFunction loc =
     \<lparr>Function.LParKeyword = None, Function.RParKeyword = None,
      Function.ListSeparatorKeyword = None, Function.Name = None, Function.Oneway = None,
      Function.Void = None, Function.FunctionType = None, Function.Arguments = [],
      Function.Throws = None, Function.Comments = [], Function.EndLineComments = [],
      Function.Annotations = None, Function.BadNode = True, Function.Location = loc\<rparr>"

definition NewUnion ::
  "Keyword option \<Rightarrow> Keyword option \<Rightarrow> Keyword option \<Rightarrow>
   Identifier option \<Rightarrow> Field option list \<Rightarrow> Location \<Rightarrow>
   Union" where
  "NewUnion unionKeyword lCurKeyword rCurKeyword name flds loc =
     \<lparr>Union.UnionKeyword = unionKeyword, Union.LCurKeyword = lCurKeyword,
      Union.RCurKeyword = rCurKeyword, Union.Name = name, Union.Fields = flds,
      Union.Comments = [], Union.EndLineComments = [], Union.Annotations = None,
      Union.BadNode = False, Union.Location = loc\<rparr>"

definition NewBadUnion :: "Location \<Rightarrow> Union" where
  "NewBadUnion loc =
     \<lparr>Union.UnionKeyword = None, Union.LCurKeyword = None, Union.RCurKeyword = None,
      Union.Name = None, Union.Fields = [], Union.Comments = [], Union.EndLineComments = [],
      Union.Annotations = None, Union.BadNode = True, Union.Location = loc\<rparr>"

definition NewException ::
  "Keyword option \<Rightarrow> Keyword option \<Rightarrow> Keyword option \<Rightarrow>
   Identifier option \<Rightarrow> Field option list \<Rightarrow> Location \<Rightarrow>
   Exception" where
  "NewException exceptionKeyword lCurKeyword rCurKeyword name flds loc =
     \<lparr>Exception.ExceptionKeyword = exceptionKeyword,
      Exception.LCurKeyword = lCurKeyword, Exception.RCurKeyword = rCurKeyword,
      Exception.Name = name, Exception.Fields = flds, Exception.Comments = [],
      Exception.EndLineComments = [], Exception.Annotations = None, Exception.BadNode = False,
      Exception.Location = loc\<rparr>"

definition NewBadException :: "Location \<Rightarrow> Exception" where
  "NewBadException loc =
     \<lparr>Exception.ExceptionKeyword = None, Exception.LCurKeyword = None,
      Exception.RCurKeyword = None, Exception.Name = None, Exception.Fields = [],
      Exception.Comments = [], Exception.EndLineComments = [], Exception.Annotations = None,
      Exception.BadNode = True, Exception.Location = loc\<rparr>"

definition NewIdentifierName :: "string \<Rightarrow> Location \<Rightarrow> IdentifierName" where
  "NewIdentifierName name loc =
     \<lparr>IdentifierName.Text = name, IdentifierName.BadNode = (name = ''''),
      IdentifierName.Location = loc\<rparr>"

definition NewIdentifier ::
  "IdentifierName option \<Rightarrow> Comment option list \<Rightarrow> Location \<Rightarrow>
   Identifier" where
  "NewIdentifier name comments loc =
     \<lparr>Identifier.Name = name, Identifier.Comments = comments,
      Identifier.BadNode = (case name of None \<Rightarrow> True | Some n \<Rightarrow> IdentifierName.BadNode n),
      Identifier.Location = loc\<rparr>"

definition NewBadIdentifier :: "Location \<Rightarrow> Identifier" where
  "NewBadIdentifier loc =
     \<lparr>Identifier.Name = None, Identifier.Comments = [], Identifier.BadNode = True,
      Identifier.Location = loc\<rparr>"

definition NewField ::
  "Keyword option \<Rightarrow> ListSeparatorKeyword option \<Rightarrow>
   Comment option list \<Rightarrow> Comment option list \<Rightarrow>
   Annotations option \<Rightarrow> FieldIndex option \<Rightarrow>
   Keyword option \<Rightarrow> FieldType option \<Rightarrow> Identifier option \<Rightarrow>
   ConstValue option \<Rightarrow> Location \<Rightarrow> Field" where
  "NewField equalKeyword listSeparatorKeyword comments endLineComments annotations index
     required fieldType identifier constValue loc =
     \<lparr>Field.Index = index, Field.RequiredKeyword = required,
      Field.FieldType = fieldType, Field.Identifier = identifier,
      Field.ConstValue = constValue, Field.EqualKeyword = equalKeyword,
      Field.ListSeparatorKeyword = listSeparatorKeyword, Field.Comments = comments,
      Field.EndLineComments = endLineComments, Field.Annotations = annotations,
      Field.BadNode = False, Field.Location = loc\<rparr>"

definition NewBadField :: "Location \<Rightarrow> Field" where
  "NewBadField loc =
     \<lparr>Field.Index = None, Field.RequiredKeyword = None, Field.FieldType = None,
      Field.Identifier = None, Field.ConstValue = None, Field.EqualKeyword = None,
      Field.ListSeparatorKeyword = None, Field.Comments = [], Field.EndLineComments = [],
      Field.Annotations = None, Field.BadNode = True, Field.Location = loc\<rparr>"

definition NewFieldIndex ::
  "Keyword option \<Rightarrow> go_int \<Rightarrow> Comment option list \<Rightarrow>
   Location \<Rightarrow> FieldIndex" where
  "NewFieldIndex colonKeyword v comments loc =
     \<lparr>FieldIndex.ColonKeyword = colonKeyword, FieldIndex.Value = v,
      FieldIndex.Comments = comments, FieldIndex.BadNode = False,
      FieldIndex.Location = loc\<rparr>"

definition NewBadFieldIndex :: "Location \<Rightarrow> FieldIndex" where
  "NewBadFieldIndex loc =
     \<lparr>FieldIndex.ColonKeyword = None, FieldIndex.Value = 0, FieldIndex.Comments = [],
      FieldIndex.BadNode = True, FieldIndex.Location = loc\<rparr>"

definition NewCppType ::
  "Keyword option \<Rightarrow> Literal option \<Rightarrow> Location \<Rightarrow>
   CppType" where
  "NewCppType cppTypeKeyword literal loc =
     \<lparr>CppType.CppTypeKeyword = cppTypeKeyword, CppType.Literal = literal,
      CppType.BadNode = False, CppType.Location = loc\<rparr>"

definition NewTypeName :: "string \<Rightarrow> position \<Rightarrow> TypeName" where
  "NewTypeName name p =
     \<lparr>TypeName.Name = name, TypeName.Comments = [], TypeName.BadNode = False,
      TypeName.Location = NewLocation p name\<rparr>"

definition NewLiteralValue :: "string \<Rightarrow> Location \<Rightarrow> LiteralValue" where
  "NewLiteralValue txt loc =
     \<lparr>LiteralValue.Text = txt, LiteralValue.BadNode = False,
      LiteralValue.Location = loc\<rparr>"

definition NewBadLiteralValue :: "Location \<Rightarrow> LiteralValue" where
  "NewBadLiteralValue loc =
     \<lparr>LiteralValue.Text = '''', LiteralValue.BadNode = True,
      LiteralValue.Location = loc\<rparr>"

definition NewLiteral ::
  "Comment option list \<Rightarrow> LiteralValue option \<Rightarrow> string \<Rightarrow>
   Location \<Rightarrow> Literal" where
  "NewLiteral comments v quote loc =
     \<lparr>Literal.Value = v, Literal.Quote = quote, Literal.Comments = comments,
      Literal.BadNode = False, Literal.Location = loc\<rparr>"

definition NewBadLiteral :: "Location \<Rightarrow> Literal" where
  "NewBadLiteral loc =
     \<lparr>Literal.Value = None, Literal.Quote = '''', Literal.Comments = [],
      Literal.BadNode = True, Literal.Location = loc\<rparr>"

definition NewAnnotations ::
  "Keyword option \<Rightarrow> Keyword option \<Rightarrow>
   Annotation option list \<Rightarrow> Location \<Rightarrow> Annotations" where
  "NewAnnotations lpar rpar annos loc =
     \<lparr>Annotations.Annotations = annos, Annotations.LParKeyword = lpar,
      Annotations.RParKeyword = rpar, Annotations.BadNode = False,
      Annotations.Location = loc\<rparr>"

definition NewAnnotation ::
  "Keyword option \<Rightarrow> ListSeparatorKeyword option \<Rightarrow>
   Identifier option \<Rightarrow> Literal option \<Rightarrow> Location \<Rightarrow>
   Annotation" where
  "NewAnnotation equalKeyword listSeparatorKeyword ident v loc =
     \<lparr>Annotation.EqualKeyword = equalKeyword,
      Annotation.ListSeparatorKeyword = listSeparatorKeyword, Annotation.Identifier = ident,
      Annotation.Value = v, Annotation.BadNode = False, Annotation.Location = loc\<rparr>"

definition NewBadAnnotation :: "Location \<Rightarrow> Annotation" where
  "NewBadAnnotation loc =
     \<lparr>Annotation.EqualKeyword = None, Annotation.ListSeparatorKeyword = None,
      Annotation.Identifier = None, Annotation.Value = None, Annotation.BadNode = True,
      Annotation.Location = loc\<rparr>"

definition NewComment ::
  "string \<Rightarrow> CommentStyle \<Rightarrow> Location \<Rightarrow> Comment" where
  "NewComment txt style loc =
     \<lparr>Comment.Text = txt, Comment.Style = style, Comment.BadNode = False,
      Comment.Location = loc\<rparr>"

definition NewBadComment :: "Location \<Rightarrow> Comment" where
  "NewBadComment loc =
     \<lparr>Comment.Text = '''', Comment.Style = '''', Comment.BadNode = True,
      Comment.Location = loc\<rparr>"

definition NewFieldType ::
  "Keyword option \<Rightarrow> Keyword option \<Rightarrow> Keyword option \<Rightarrow> CppType option \<Rightarrow> TypeName option \<Rightarrow>
   FieldType option \<Rightarrow> FieldType option \<Rightarrow> Location \<Rightarrow> FieldType" where
  "NewFieldType lpointKeyword rpointKeyword commaKeyword cppType typeName keyType valueType loc =
     MkFieldType typeName keyType valueType cppType lpointKeyword rpointKeyword commaKeyword
       None False loc"

definition NewConstValue :: "string \<Rightarrow> AnyValue \<Rightarrow> Location \<Rightarrow> ConstValue" where
  "NewConstValue typeName v loc =
     MkConstValue typeName v [] AnyNil None None None None None None [] False loc"

definition NewBadConstValue :: "Location \<Rightarrow> ConstValue" where
  "NewBadConstValue loc =
     MkConstValue [] AnyNil [] AnyNil None None None None None None [] True loc"

definition NewBadIntConstValue :: "Location \<Rightarrow> ConstValue" where
  "NewBadIntConstValue loc =
     MkConstValue ''i64'' (AnyInt64 0) [] AnyNil None None None None None None [] True loc"

definition NewMapConstValue :: "ConstValue option \<Rightarrow> ConstValue option \<Rightarrow> Location \<Rightarrow> ConstValue" where
  "NewMapConstValue k v loc =
     MkConstValue ''pair'' (AnyConstValue v) [] (AnyConstValue k) None None None None None None
       [] False loc"

subsection \<open>The setters of comments and annotations\<close>

definition Struct_SetComments :: "Struct \<Rightarrow> Comment option list \<Rightarrow> Comment option list \<Rightarrow> Struct" where
  "Struct_SetComments s comments endLineComments =
     s\<lparr>Struct.Comments := comments, Struct.EndLineComments := endLineComments\<rparr>"

definition Struct_SetAnnotations :: "Struct \<Rightarrow> Annotations option \<Rightarrow> Struct" where
  "Struct_SetAnnotations s annos = s\<lparr>Struct.Annotations := annos\<rparr>"

definition Union_SetComments :: "Union \<Rightarrow> Comment option list \<Rightarrow> Comment option list \<Rightarrow> Union" where
  "Union_SetComments u comments endLineComments =
     u\<lparr>Union.Comments := comments, Union.EndLineComments := endLineComments\<rparr>"

definition Union_SetAnnotations :: "Union \<Rightarrow> Annotations option \<Rightarrow> Union" where
  "Union_SetAnnotations u annos = u\<lparr>Union.Annotations := annos\<rparr>"

definition Exception_SetComments ::
  "Exception \<Rightarrow> Comment option list \<Rightarrow> Comment option list \<Rightarrow> Exception" where
  "Exception_SetComments e comments endLineComments =
     e\<lparr>Exception.Comments := comments, Exception.EndLineComments := endLineComments\<rparr>"

definition Exception_SetAnnotations :: "Exception \<Rightarrow> Annotations option \<Rightarrow> Exception" where
  "Exception_SetAnnotations e annos = e\<lparr>Exception.Annotations := annos\<rparr>"

definition Enum_SetComments :: "Enum \<Rightarrow> Comment option list \<Rightarrow> Comment option list \<Rightarrow> Enum" where
  "Enum_SetComments e comments endlineComments =
     e\<lparr>Enum.Comments := comments, Enum.EndLineComments := endlineComments\<rparr>"

definition Enum_SetAnnotations :: "Enum \<Rightarrow> Annotations option \<Rightarrow> Enum" where
  "Enum_SetAnnotations e annos = e\<lparr>Enum.Annotations := annos\<rparr>"

definition Service_SetComments :: "Service \<Rightarrow> Comment option list \<Rightarrow> Comment option list \<Rightarrow> Service" where
  "Service_SetComments s comments endLineComments =
     s\<lparr>Service.Comments := comments, Service.EndLineComments := endLineComments\<rparr>"

definition Service_SetAnnotations :: "Service \<Rightarrow> Annotations option \<Rightarrow> Service" where
  "Service_SetAnnotations s annos = s\<lparr>Service.Annotations := annos\<rparr>"

section \<open>The methods of the nodes\<close>

text \<open>
  A call either returns, or stops the program with the panic of a nil pointer that is
  read, or never returns.
\<close>

datatype 'a outcome = Returns 'a | Panics | Diverges

text \<open>Reading a field through a pointer: a panic when the pointer is nil.\<close>

definition deref :: "'a option \<Rightarrow> ('a \<Rightarrow> 'b) \<Rightarrow> 'b outcome" where
  "deref p f = (case p of None \<Rightarrow> Panics | Some x \<Rightarrow> Returns (f x))"

text \<open>\<^verbatim>\<open>if p != nil { nodes = append(nodes, p) }\<close>\<close>

definition append_nonnil :: "('a option \<Rightarrow> Node) \<Rightarrow> 'a option \<Rightarrow> Node list" where
  "append_nonnil N p = (case p of None \<Rightarrow> [] | Some x \<Rightarrow> [N p])"

subsection \<open>\<^verbatim>\<open>Children()\<close>, type by type\<close>

definition Include_Children :: "Include \<Rightarrow> Node list" where
  "Include_Children i =
     [N_Keyword K_IncludeKeyword (Include.IncludeKeyword i), N_Literal (Include.Path i)]
     @ map N_Comment (Include.Comments i)
     @ map N_Comment (Include.EndLineComments i)"

definition CPPInclude_Children :: "CPPInclude \<Rightarrow> Node list" where
  "CPPInclude_Children i =
     [N_Keyword K_CPPIncludeKeyword (CPPInclude.CPPIncludeKeyword i), N_Literal (CPPInclude.Path i)]
     @ map N_Comment (CPPInclude.Comments i)
     @ map N_Comment (CPPInclude.EndLineComments i)"

definition Namespace_Children :: "Namespace \<Rightarrow> Node list" where
  "Namespace_Children n =
     [N_Keyword K_NamespaceKeyword (Namespace.NamespaceKeyword n),
      N_NamespaceScope (Namespace.Language n), N_Identifier (Namespace.Name n)]
     @ map N_Comment (Namespace.Comments n)
     @ map N_Comment (Namespace.EndLineComments n)
     @ append_nonnil N_Annotations (Namespace.Annotations n)"

definition Struct_Children :: "Struct \<Rightarrow> Node list" where
  "Struct_Children s =
     [N_Keyword K_StructKeyword (Struct.StructKeyword s),
      N_Keyword K_LCurKeyword (Struct.LCurKeyword s),
      N_Keyword K_RCurKeyword (Struct.RCurKeyword s), N_Identifier (Struct.Identifier s)]
     @ map N_Field (Struct.Fields s)
     @ map N_Comment (Struct.Comments s)
     @ map N_Comment (Struct.EndLineComments s)
     @ append_nonnil N_Annotations (Struct.Annotations s)"

definition Const_Children :: "Const \<Rightarrow> Node list" where
  "Const_Children c =
     [N_Keyword K_ConstKeyword (Const.ConstKeyword c),
      N_Keyword K_EqualKeyword (Const.EqualKeyword c), N_Identifier (Const.Name c),
      N_FieldType (Const.ConstType c), N_ConstValue (Const.Value c)]
     @ append_nonnil N_ListSeparatorKeyword (Const.ListSeparatorKeyword c)
     @ map N_Comment (Const.Comments c)
     @ map N_Comment (Const.EndLineComments c)
     @ append_nonnil N_Annotations (Const.Annotations c)"

definition Typedef_Children :: "Typedef \<Rightarrow> Node list" where
  "Typedef_Children t =
     [N_Keyword K_TypedefKeyword (Typedef.TypedefKeyword t), N_FieldType (Typedef.T t),
      N_Identifier (Typedef.Alias t)]
     @ map N_Comment (Typedef.Comments t)
     @ map N_Comment (Typedef.EndLineComments t)
     @ append_nonnil N_Annotations (Typedef.Annotations t)"

definition Enum_Children :: "Enum \<Rightarrow> Node list" where
  "Enum_Children e =
     [N_Identifier (Enum.Name e)]
     @ map N_EnumValue (Enum.Values e)
     @ map N_Comment (Enum.Comments e)
     @ map N_Comment (Enum.EndLineComments e)
     @ append_nonnil N_Annotations (Enum.Annotations e)"

definition EnumValue_Children :: "EnumValue \<Rightarrow> Node list" where
  "EnumValue_Children e =
     [N_Identifier (EnumValue.Name e)]
     @ append_nonnil N_ConstValue (EnumValue.ValueNode e)
     @ append_nonnil N_ListSeparatorKeyword (EnumValue.ListSeparatorKeyword e)
     @ append_nonnil (N_Keyword K_EqualKeyword) (EnumValue.EqualKeyword e)
     @ map N_Comment (EnumValue.Comments e)
     @ map N_Comment (EnumValue.EndLineComments e)
     @ append_nonnil N_Annotations (EnumValue.Annotations e)"

definition Service_Children :: "Service \<Rightarrow> Node list" where
  "Service_Children s =
     [N_Keyword K_ServiceKeyword (Service.ServiceKeyword s),
      N_Keyword K_LCurKeyword (Service.LCurKeyword s),
      N_Keyword K_RCurKeyword (Service.RCurKeyword s)]
     @ append_nonnil (N_Keyword K_ExtendsKeyword) (Service.ExtendsKeyword s)
     @ append_nonnil N_Identifier (Service.Name s)
     @ append_nonnil N_Identifier (Service.Extends s)
     @ map N_Function (Service.Functions s)
     @ map N_Comment (Service.Comments s)
     @ map N_Comment (Service.EndLineComments s)
     @ append_nonnil N_Annotations (Service.Annotations s)"

definition Throws_Children :: "Throws \<Rightarrow> Node list" where
  "Throws_Children t =
     [N_Keyword K_ThrowsKeyword (Throws.ThrowsKeyword t),
      N_Keyword K_LParKeyword (Throws.LParKeyword t),
      N_Keyword K_RParKeyword (Throws.RParKeyword t)]
     @ map N_Field (Throws.Fields t)"

definition Function_Children :: "Function \<Rightarrow> Node list" where
  "Function_Children f =
     [N_Keyword K_LParKeyword (Function.LParKeyword f),
      N_Keyword K_RParKeyword (Function.RParKeyword f)]
     @ append_nonnil (N_Keyword K_OnewayKeyword) (Function.Oneway f)
     @ append_nonnil (N_Keyword K_VoidKeyword) (Function.Void f)
     @ append_nonnil N_ListSeparatorKeyword (Function.ListSeparatorKeyword f)
     @ append_nonnil N_Identifier (Function.Name f)
     @ append_nonnil N_FieldType (Function.FunctionType f)
     @ map N_Field (Function.Arguments f)
     @ append_nonnil N_Throws (Function.Throws f)
     @ map N_Comment (Function.Comments f)
     @ map N_Comment (Function.EndLineComments f)
     @ append_nonnil N_Annotations (Function.Annotations f)"

definition Union_Children :: "Union \<Rightarrow> Node list" where
  "Union_Children u =
     [N_Identifier (Union.Name u), N_Keyword K_UnionKeyword (Union.UnionKeyword u),
      N_Keyword K_LCurKeyword (Union.LCurKeyword u),
      N_Keyword K_RCurKeyword (Union.RCurKeyword u)]
     @ map N_Field (Union.Fields u)
     @ map N_Comment (Union.Comments u)
     @ map N_Comment (Union.EndLineComments u)
     @ map N_Comment (Union.Comments u)
     @ map N_Comment (Union.EndLineComments u)
     @ append_nonnil N_Annotations (Union.Annotations u)"

definition Exception_Children :: "Exception \<Rightarrow> Node list" where
  "Exception_Children e =
     [N_Identifier (Exception.Name e),
      N_Keyword K_ExceptionKeyword (Exception.ExceptionKeyword e),
      N_Keyword K_LCurKeyword (Exception.LCurKeyword e),
      N_Keyword K_RCurKeyword (Exception.RCurKeyword e)]
     @ map N_Field (Exception.Fields e)
     @ map N_Comment (Exception.Comments e)
     @ map N_Comment (Exception.EndLineComments e)
     @ append_nonnil N_Annotations (Exception.Annotations e)"

definition Identifier_Children :: "Identifier \<Rightarrow> Node list" where
  "Identifier_Children i =
     map N_Comment (Identifier.Comments i) @ [N_IdentifierName (Identifier.Name i)]"

definition Field_Children :: "Field \<Rightarrow> Node list" where
  "Field_Children f =
     append_nonnil (N_Keyword K_RequiredKeyword) (Field.RequiredKeyword f)
     @ append_nonnil N_FieldType (Field.FieldType f)
     @ append_nonnil N_Identifier (Field.Identifier f)
     @ append_nonnil N_ConstValue (Field.ConstValue f)
     @ append_nonnil (N_Keyword K_EqualKeyword) (Field.EqualKeyword f)
     @ append_nonnil N_ListSeparatorKeyword (Field.ListSeparatorKeyword f)
     @ map N_Comment (Field.Comments f)
     @ map N_Comment (Field.EndLineComments f)
     @ append_nonnil N_Annotations (Field.Annotations f)"

definition CppType_Children :: "CppType \<Rightarrow> Node list" where
  "CppType_Children c =
     [N_Keyword K_CppTypeKeyword (CppType.CppTypeKeyword c), N_Literal (CppType.Literal c)]"

definition FieldType_Children :: "FieldType \<Rightarrow> Node list" where
  "FieldType_Children c =
     [N_TypeName (FieldType.TypeName c)]
     @ append_nonnil N_FieldType (FieldType.KeyType c)
     @ append_nonnil N_FieldType (FieldType.ValueType c)"

definition TypeName_Children :: "TypeName \<Rightarrow> Node list" where
  "TypeName_Children t = map N_Comment (TypeName.Comments t)"

definition Literal_Children :: "Literal \<Rightarrow> Node list" where
  "Literal_Children l =
     map N_Comment (Literal.Comments l) @ append_nonnil N_LiteralValue (Literal.Value l)"

definition Annotations_Children :: "Annotations \<Rightarrow> Node list" where
  "Annotations_Children a =
     [N_Keyword K_LParKeyword (Annotations.LParKeyword a),
      N_Keyword K_RParKeyword (Annotations.RParKeyword a)]
     @ map N_Annotation (Annotations.Annotations a)"

definition Annotation_Children :: "Annotation \<Rightarrow> Node list" where
  "Annotation_Children a =
     [N_Identifier (Annotation.Identifier a), N_Literal (Annotation.Value a),
      N_Keyword K_EqualKeyword (Annotation.EqualKeyword a)]
     @ append_nonnil N_ListSeparatorKeyword (Annotation.ListSeparatorKeyword a)"

text \<open>
  The call through the interface. A method that reads a field of its receiver panics on
  a nil pointer; the methods that return nil outright (\<^verbatim>\<open>BadHeader\<close>,
  \<^verbatim>\<open>KeywordLiteral\<close>, \<^verbatim>\<open>BadDefinition\<close>, \<^verbatim>\<open>IdentifierName\<close>, \<^verbatim>\<open>FieldIndex\<close>,
  \<^verbatim>\<open>ConstValue\<close>, \<^verbatim>\<open>LiteralValue\<close>, \<^verbatim>\<open>Comment\<close>) do not look at it. The keyword
  types and \<^verbatim>\<open>NamespaceScope\<close> inherit their methods from the struct they embed, whose
  address is taken from the receiver: a panic on nil.
\<close>

fun Children :: "Node \<Rightarrow> Node list outcome" where
  "Children (N_Document d) = deref d Document.Nodes"
| "Children (N_BadHeader h) = Returns []"
| "Children (N_KeywordLiteral k) = Returns []"
| "Children (N_Keyword kind k) = deref k (\<lambda>i. [])"
| "Children (N_ListSeparatorKeyword k) = deref k (\<lambda>i. [])"
| "Children (N_Include i) = deref i Include_Children"
| "Children (N_CPPInclude i) = deref i CPPInclude_Children"
| "Children (N_Namespace n) = deref n Namespace_Children"
| "Children (N_NamespaceScope i) = deref i Identifier_Children"
| "Children (N_BadDefinition d) = Returns []"
| "Children (N_Struct s) = deref s Struct_Children"
| "Children (N_Const c) = deref c Const_Children"
| "Children (N_Typedef t) = deref t Typedef_Children"
| "Children (N_Enum e) = deref e Enum_Children"
| "Children (N_EnumValue e) = deref e EnumValue_Children"
| "Children (N_Service s) = deref s Service_Children"
| "Children (N_Throws t) = deref t Throws_Children"
| "Children (N_Function f) = deref f Function_Children"
| "Children (N_Union u) = deref u Union_Children"
| "Children (N_Exception e) = deref e Exception_Children"
| "Children (N_IdentifierName i) = Returns []"
| "Children (N_Identifier i) = deref i Identifier_Children"
| "Children (N_Field f) = deref f Field_Children"
| "Children (N_FieldIndex f) = Returns []"
| "Children (N_CppType c) = deref c CppType_Children"
| "Children (N_FieldType c) = deref c FieldType_Children"
| "Children (N_TypeName t) = deref t TypeName_Children"
| "Children (N_ConstValue c) = Returns []"
| "Children (N_LiteralValue l) = Returns []"
| "Children (N_Literal l) = deref l Literal_Children"
| "Children (N_Annotations a) = deref a Annotations_Children"
| "Children (N_Annotation a) = deref a Annotation_Children"
| "Children (N_Comment c) = Returns []"

subsection \<open>\<^verbatim>\<open>IsBadNode()\<close>\<close>

text \<open>
  \<^verbatim>\<open>func (c *CppType) IsBadNode() bool { return c.IsBadNode() }\<close>: the method calls
  itself. \<open>None\<close> is the call that does not return.
\<close>

partial_function (option) CppType_IsBadNode :: "CppType option \<Rightarrow> bool option" where
  "CppType_IsBadNode c = CppType_IsBadNode c"

fun IsBadNode :: "Node \<Rightarrow> bool outcome" where
  "IsBadNode (N_Document d) = Returns False"
| "IsBadNode (N_BadHeader h) = Returns True"
| "IsBadNode (N_KeywordLiteral k) = deref k KeywordLiteral.BadNode"
| "IsBadNode (N_Keyword kind k) = deref k Keyword.BadNode"
| "IsBadNode (N_ListSeparatorKeyword k) = deref k (\<lambda>i. Keyword.BadNode (ListSeparatorKeyword.Keyword i))"
| "IsBadNode (N_Include i) = deref i Include.BadNode"
| "IsBadNode (N_CPPInclude i) = deref i CPPInclude.BadNode"
| "IsBadNode (N_Namespace n) = deref n Namespace.BadNode"
| "IsBadNode (N_NamespaceScope i) = deref i Identifier.BadNode"
| "IsBadNode (N_BadDefinition d) = Returns True"
| "IsBadNode (N_Struct s) = deref s Struct.BadNode"
| "IsBadNode (N_Const c) = deref c Const.BadNode"
| "IsBadNode (N_Typedef t) = deref t Typedef.BadNode"
| "IsBadNode (N_Enum e) = deref e Enum.BadNode"
| "IsBadNode (N_EnumValue e) = deref e EnumValue.BadNode"
| "IsBadNode (N_Service s) = deref s Service.BadNode"
| "IsBadNode (N_Throws t) = deref t Throws.BadNode"
| "IsBadNode (N_Function f) = deref f Function.BadNode"
| "IsBadNode (N_Union u) = deref u Union.BadNode"
| "IsBadNode (N_Exception e) = deref e Exception.BadNode"
| "IsBadNode (N_IdentifierName i) = deref i IdentifierName.BadNode"
| "IsBadNode (N_Identifier i) = deref i Identifier.BadNode"
| "IsBadNode (N_Field f) = deref f Field.BadNode"
| "IsBadNode (N_FieldIndex f) = deref f FieldIndex.BadNode"
| "IsBadNode (N_CppType c) =
     (case CppType_IsBadNode c of None \<Rightarrow> Diverges | Some b \<Rightarrow> Returns b)"
| "IsBadNode (N_FieldType c) = deref c FieldType.BadNode"
| "IsBadNode (N_TypeName t) = deref t TypeName.BadNode"
| "IsBadNode (N_ConstValue c) = deref c ConstValue.BadNode"
| "IsBadNode (N_LiteralValue l) = deref l LiteralValue.BadNode"
| "IsBadNode (N_Literal l) = deref l Literal.BadNode"
| "IsBadNode (N_Annotations a) = deref a Annotations.BadNode"
| "IsBadNode (N_Annotation a) = deref a Annotation.BadNode"
| "IsBadNode (N_Comment c) = deref c Comment.BadNode"

subsection \<open>\<^verbatim>\<open>ChildrenBadNode()\<close>\<close>

text \<open>
  Every \<^verbatim>\<open>ChildrenBadNode\<close> of the source but five is the same loop over the node's
  \<^verbatim>\<open>Children()\<close>:
  \<^verbatim>\<open>
  for i := range children {
      if children[i].IsBadNode() { return true }
      if children[i].ChildrenBadNode() { return true }
  }
  return false
  \<close>
  \<open>scanChildren\<close> is that loop, over the method that the second call reaches.
\<close>

fun scanChildren :: "(Node \<Rightarrow> bool outcome) \<Rightarrow> Node list \<Rightarrow> bool outcome" where
  "scanChildren childrenBad [] = Returns False"
| "scanChildren childrenBad (c # cs) =
     (case IsBadNode c of
        Returns b \<Rightarrow>
          if b then Returns True
          else (case childrenBad c of
                  Returns b' \<Rightarrow> if b' then Returns True else scanChildren childrenBad cs
                | Panics \<Rightarrow> Panics
                | Diverges \<Rightarrow> Diverges)
      | Panics \<Rightarrow> Panics
      | Diverges \<Rightarrow> Diverges)"

lemma scanChildren_cong [fundef_cong]:
  "cs = cs' \<Longrightarrow> (\<And>c. c \<in> set cs' \<Longrightarrow> g c = g' c) \<Longrightarrow> scanChildren g cs = scanChildren g' cs'"
  by (induction cs arbitrary: cs') (auto split: outcome.splits)

text \<open>
  A measure of nodes under which every child is smaller than its parent: the height of
  the tree below a node, bounded from above type by type.
\<close>

fun weight_FieldType :: "FieldType \<Rightarrow> nat" where
  "weight_FieldType (MkFieldType tn k v cpp lp rp cm an bn loc) =
     2 + (case k of None \<Rightarrow> 0 | Some x \<Rightarrow> weight_FieldType x)
       + (case v of None \<Rightarrow> 0 | Some x \<Rightarrow> weight_FieldType x)"

definition weight_opt :: "('a \<Rightarrow> nat) \<Rightarrow> 'a option \<Rightarrow> nat" where
  "weight_opt w p = (case p of None \<Rightarrow> 0 | Some x \<Rightarrow> w x)"

definition weight_list :: "('a \<Rightarrow> nat) \<Rightarrow> 'a option list \<Rightarrow> nat" where
  "weight_list w ps = sum_list (map (weight_opt w) ps)"

definition weight_Field :: "Field \<Rightarrow> nat" where
  "weight_Field f = 4 + weight_opt weight_FieldType (Field.FieldType f)"

definition weight_Throws :: "Throws \<Rightarrow> nat" where
  "weight_Throws t = 1 + weight_list weight_Field (Throws.Fields t)"

definition weight_Function :: "Function \<Rightarrow> nat" where
  "weight_Function f =
     5 + weight_opt weight_FieldType (Function.FunctionType f)
       + weight_list weight_Field (Function.Arguments f)
       + weight_opt weight_Throws (Function.Throws f)"

fun weight :: "Node \<Rightarrow> nat" and weight_Document :: "Document \<Rightarrow> nat" where
  "weight (N_Document d) = (case d of None \<Rightarrow> 0 | Some x \<Rightarrow> weight_Document x)"
| "weight (N_BadHeader h) = 0"
| "weight (N_KeywordLiteral k) = 0"
| "weight (N_Keyword kind k) = 0"
| "weight (N_ListSeparatorKeyword k) = 0"
| "weight (N_Include i) = 2"
| "weight (N_CPPInclude i) = 2"
| "weight (N_Namespace n) = 4"
| "weight (N_NamespaceScope i) = 1"
| "weight (N_BadDefinition d) = 0"
| "weight (N_Struct s) = weight_opt (\<lambda>x. 4 + weight_list weight_Field (Struct.Fields x)) s"
| "weight (N_Const c) = weight_opt (\<lambda>x. 4 + weight_opt weight_FieldType (Const.ConstType x)) c"
| "weight (N_Typedef t) = weight_opt (\<lambda>x. 4 + weight_opt weight_FieldType (Typedef.T x)) t"
| "weight (N_Enum e) = 5"
| "weight (N_EnumValue e) = 4"
| "weight (N_Service s) =
     weight_opt (\<lambda>x. 4 + weight_list weight_Function (Service.Functions x)) s"
| "weight (N_Throws t) = weight_opt weight_Throws t"
| "weight (N_Function f) = weight_opt weight_Function f"
| "weight (N_Union u) = weight_opt (\<lambda>x. 4 + weight_list weight_Field (Union.Fields x)) u"
| "weight (N_Exception e) =
     weight_opt (\<lambda>x. 4 + weight_list weight_Field (Exception.Fields x)) e"
| "weight (N_IdentifierName i) = 0"
| "weight (N_Identifier i) = 1"
| "weight (N_Field f) = weight_opt weight_Field f"
| "weight (N_FieldIndex f) = 0"
| "weight (N_CppType c) = 2"
| "weight (N_FieldType c) = weight_opt weight_FieldType c"
| "weight (N_TypeName t) = 1"
| "weight (N_ConstValue c) = 0"
| "weight (N_LiteralValue l) = 0"
| "weight (N_Literal l) = 1"
| "weight (N_Annotations a) = 3"
| "weight (N_Annotation a) = 2"
| "weight (N_Comment c) = 0"
| "weight_Document (MkDocument fname bhs incs cpps nss cons tds ens svs sts uns exs bds cms
       nodes loc) = Suc (sum_list (map weight nodes))"

lemma weight_list_member: "Some x \<in> set ps \<Longrightarrow> w x \<le> weight_list w ps"
  by (induction ps) (auto simp: weight_list_def weight_opt_def)

lemma weight_opt_list_member: "p \<in> set ps \<Longrightarrow> weight_opt w p \<le> weight_list w ps"
  by (cases p) (auto simp: weight_opt_def dest: weight_list_member)

lemma weight_member_sum_list: "c \<in> set cs \<Longrightarrow> weight c \<le> sum_list (map weight cs)"
  by (induction cs) auto

lemma weight_FieldType_ge: "2 \<le> weight_FieldType t"
  by (cases t) simp

lemma in_append_nonnil: "c \<in> set (append_nonnil N p) \<Longrightarrow> c = N p"
  by (cases p) (simp_all add: append_nonnil_def)

lemma Include_Children_weight: "c \<in> set (Include_Children x) \<Longrightarrow> weight c < 2"
  by (auto simp: Include_Children_def)

lemma CPPInclude_Children_weight: "c \<in> set (CPPInclude_Children x) \<Longrightarrow> weight c < 2"
  by (auto simp: CPPInclude_Children_def)

lemma Namespace_Children_weight: "c \<in> set (Namespace_Children x) \<Longrightarrow> weight c < 4"
  by (auto simp: Namespace_Children_def dest!: in_append_nonnil)

lemma Identifier_Children_weight: "c \<in> set (Identifier_Children x) \<Longrightarrow> weight c < 1"
  by (auto simp: Identifier_Children_def)

lemma Struct_Children_weight:
  "c \<in> set (Struct_Children x) \<Longrightarrow> weight c < 4 + weight_list weight_Field (Struct.Fields x)"
  by (auto simp: Struct_Children_def dest!: in_append_nonnil
        dest: weight_opt_list_member[where w = weight_Field] weight_opt_list_member[where w = weight_Function])

lemma Const_Children_weight:
  "c \<in> set (Const_Children x) \<Longrightarrow> weight c < 4 + weight_opt weight_FieldType (Const.ConstType x)"
  by (auto simp: Const_Children_def dest!: in_append_nonnil)

lemma Typedef_Children_weight:
  "c \<in> set (Typedef_Children x) \<Longrightarrow> weight c < 4 + weight_opt weight_FieldType (Typedef.T x)"
  by (auto simp: Typedef_Children_def dest!: in_append_nonnil)

lemma Enum_Children_weight: "c \<in> set (Enum_Children x) \<Longrightarrow> weight c < 5"
  by (auto simp: Enum_Children_def dest!: in_append_nonnil)

lemma EnumValue_Children_weight: "c \<in> set (EnumValue_Children x) \<Longrightarrow> weight c < 4"
  by (auto simp: EnumValue_Children_def dest!: in_append_nonnil)

lemma Service_Children_weight:
  "c \<in> set (Service_Children x) \<Longrightarrow>
   weight c < 4 + weight_list weight_Function (Service.Functions x)"
  by (auto simp: Service_Children_def dest!: in_append_nonnil
        dest: weight_opt_list_member[where w = weight_Field] weight_opt_list_member[where w = weight_Function])

lemma Throws_Children_weight: "c \<in> set (Throws_Children x) \<Longrightarrow> weight c < weight_Throws x"
  by (auto simp: Throws_Children_def weight_Throws_def
        dest: weight_opt_list_member[where w = weight_Field])

lemma Function_Children_weight: "c \<in> set (Function_Children x) \<Longrightarrow> weight c < weight_Function x"
  by (auto simp: Function_Children_def weight_Function_def dest!: in_append_nonnil
        dest: weight_opt_list_member[where w = weight_Field])

lemma Union_Children_weight:
  "c \<in> set (Union_Children x) \<Longrightarrow> weight c < 4 + weight_list weight_Field (Union.Fields x)"
  by (auto simp: Union_Children_def dest!: in_append_nonnil
        dest: weight_opt_list_member[where w = weight_Field] weight_opt_list_member[where w = weight_Function])

lemma Exception_Children_weight:
  "c \<in> set (Exception_Children x) \<Longrightarrow>
   weight c < 4 + weight_list weight_Field (Exception.Fields x)"
  by (auto simp: Exception_Children_def dest!: in_append_nonnil
        dest: weight_opt_list_member[where w = weight_Field] weight_opt_list_member[where w = weight_Function])

lemma Field_Children_weight: "c \<in> set (Field_Children x) \<Longrightarrow> weight c < weight_Field x"
  by (auto simp: Field_Children_def weight_Field_def dest!: in_append_nonnil)

lemma CppType_Children_weight: "c \<in> set (CppType_Children x) \<Longrightarrow> weight c < 2"
  by (auto simp: CppType_Children_def)

lemma FieldType_Children_weight: "c \<in> set (FieldType_Children x) \<Longrightarrow> weight c < weight_FieldType x"
  by (cases x) (auto simp: FieldType_Children_def weight_opt_def dest!: in_append_nonnil split: option.splits)

lemma TypeName_Children_weight: "c \<in> set (TypeName_Children x) \<Longrightarrow> weight c < 1"
  by (auto simp: TypeName_Children_def)

lemma Literal_Children_weight: "c \<in> set (Literal_Children x) \<Longrightarrow> weight c < 1"
  by (auto simp: Literal_Children_def dest!: in_append_nonnil)

lemma Annotations_Children_weight: "c \<in> set (Annotations_Children x) \<Longrightarrow> weight c < 3"
  by (auto simp: Annotations_Children_def)

lemma Annotation_Children_weight: "c \<in> set (Annotation_Children x) \<Longrightarrow> weight c < 2"
  by (auto simp: Annotation_Children_def dest!: in_append_nonnil)

lemma Document_Children_weight: "c \<in> set (Document.Nodes x) \<Longrightarrow> weight c < weight_Document x"
  by (cases x) (auto simp: le_imp_less_Suc weight_member_sum_list)

lemmas Children_weights =
  Include_Children_weight CPPInclude_Children_weight Namespace_Children_weight
  Identifier_Children_weight Struct_Children_weight Const_Children_weight
  Typedef_Children_weight Enum_Children_weight EnumValue_Children_weight
  Service_Children_weight Throws_Children_weight Function_Children_weight
  Union_Children_weight Exception_Children_weight Field_Children_weight
  CppType_Children_weight FieldType_Children_weight TypeName_Children_weight
  Literal_Children_weight Annotations_Children_weight Annotation_Children_weight
  Document_Children_weight

lemma deref_Returns: "deref p f = Returns y \<Longrightarrow> \<exists>x. p = Some x \<and> y = f x"
  by (cases p) (auto simp: deref_def)

lemma Children_weight:
  "Children n = Returns cs \<Longrightarrow> c \<in> set cs \<Longrightarrow> weight c < weight n"
  by (cases n) (auto simp: weight_opt_def dest!: deref_Returns dest: Children_weights)

text \<open>
  The five methods that return \<^verbatim>\<open>false\<close> outright come first (those of \<^verbatim>\<open>Keyword\<close>
  are reached through the embedding struct, so a nil receiver panics); every other type
  runs the loop over its own \<^verbatim>\<open>Children()\<close>.
\<close>

function (sequential) ChildrenBadNode :: "Node \<Rightarrow> bool outcome" where
  "ChildrenBadNode (N_BadHeader h) = Returns False"
| "ChildrenBadNode (N_KeywordLiteral k) = Returns False"
| "ChildrenBadNode (N_Keyword kind k) = deref k (\<lambda>i. False)"
| "ChildrenBadNode (N_ListSeparatorKeyword k) = deref k (\<lambda>i. False)"
| "ChildrenBadNode (N_BadDefinition d) = Returns False"
| "ChildrenBadNode (N_Comment c) = Returns False"
| "ChildrenBadNode n =
     (case Children n of
        Returns children \<Rightarrow> scanChildren ChildrenBadNode children
      | Panics \<Rightarrow> Panics
      | Diverges \<Rightarrow> Diverges)"
  by pat_completeness auto
termination
  by (relation "measure weight")
     (simp, (simp only: in_measure, erule Children_weight, assumption)+)

section \<open>The document\<close>

text \<open>
  A value of the interface \<^verbatim>\<open>Definition\<close> is a pointer of one of the eight types that
  have its methods. \<^verbatim>\<open>Header\<close> asks for \<^verbatim>\<open>Type\<close>, \<^verbatim>\<open>SetComments\<close>, \<^verbatim>\<open>SetLocation\<close>
  and the methods of a node: the four header types have them, and so has every
  definition.
\<close>

datatype Definition =
    D_Const "Const option"
  | D_Typedef "Typedef option"
  | D_Enum "Enum option"
  | D_Service "Service option"
  | D_Struct "Struct option"
  | D_Union "Union option"
  | D_Exception "Exception option"
  | D_BadDefinition "BadDefinition option"

datatype Header =
    H_Include "Include option"
  | H_CPPInclude "CPPInclude option"
  | H_Namespace "Namespace option"
  | H_BadHeader "BadHeader option"
  | H_Definition Definition

text \<open>The \<^verbatim>\<open>Type()\<close> of each; none of these methods reads its receiver.\<close>

fun Definition_Type :: "Definition \<Rightarrow> string" where
  "Definition_Type (D_Const c) = ''Const''"
| "Definition_Type (D_Typedef t) = ''Typedef''"
| "Definition_Type (D_Enum e) = ''Enum''"
| "Definition_Type (D_Service s) = ''Service''"
| "Definition_Type (D_Struct s) = ''Struct''"
| "Definition_Type (D_Union u) = ''Union''"
| "Definition_Type (D_Exception e) = ''Exception''"
| "Definition_Type (D_BadDefinition d) = ''Definition''"

fun Header_Type :: "Header \<Rightarrow> string" where
  "Header_Type (H_Include i) = ''Include''"
| "Header_Type (H_CPPInclude i) = ''CPPInclude''"
| "Header_Type (H_Namespace n) = ''Namespace''"
| "Header_Type (H_BadHeader h) = ''BadHeader''"
| "Header_Type (H_Definition d) = Definition_Type d"

text \<open>The same pointer, seen as a \<^verbatim>\<open>Node\<close>.\<close>

fun Definition_Node :: "Definition \<Rightarrow> Node" where
  "Definition_Node (D_Const c) = N_Const c"
| "Definition_Node (D_Typedef t) = N_Typedef t"
| "Definition_Node (D_Enum e) = N_Enum e"
| "Definition_Node (D_Service s) = N_Service s"
| "Definition_Node (D_Struct s) = N_Struct s"
| "Definition_Node (D_Union u) = N_Union u"
| "Definition_Node (D_Exception e) = N_Exception e"
| "Definition_Node (D_BadDefinition d) = N_BadDefinition d"

fun Header_Node :: "Header \<Rightarrow> Node" where
  "Header_Node (H_Include i) = N_Include i"
| "Header_Node (H_CPPInclude i) = N_CPPInclude i"
| "Header_Node (H_Namespace n) = N_Namespace n"
| "Header_Node (H_BadHeader h) = N_BadHeader h"
| "Header_Node (H_Definition d) = Definition_Node d"

text \<open>
  The type assertions \<^verbatim>\<open>header.(*Include)\<close>, \<^verbatim>\<open>def.(*Const)\<close> and their like: a panic
  when the value is of another type.
\<close>

definition as_Include :: "Header \<Rightarrow> Include option outcome" where
  "as_Include h = (case h of H_Include p \<Rightarrow> Returns p | _ \<Rightarrow> Panics)"

definition as_CPPInclude :: "Header \<Rightarrow> CPPInclude option outcome" where
  "as_CPPInclude h = (case h of H_CPPInclude p \<Rightarrow> Returns p | _ \<Rightarrow> Panics)"

definition as_Namespace :: "Header \<Rightarrow> Namespace option outcome" where
  "as_Namespace h = (case h of H_Namespace p \<Rightarrow> Returns p | _ \<Rightarrow> Panics)"

definition as_BadHeader :: "Header \<Rightarrow> BadHeader option outcome" where
  "as_BadHeader h = (case h of H_BadHeader p \<Rightarrow> Returns p | _ \<Rightarrow> Panics)"

definition as_Const :: "Definition \<Rightarrow> Const option outcome" where
  "as_Const d = (case d of D_Const p \<Rightarrow> Returns p | _ \<Rightarrow> Panics)"

definition as_Typedef :: "Definition \<Rightarrow> Typedef option outcome" where
  "as_Typedef d = (case d of D_Typedef p \<Rightarrow> Returns p | _ \<Rightarrow> Panics)"

definition as_Enum :: "Definition \<Rightarrow> Enum option outcome" where
  "as_Enum d = (case d of D_Enum p \<Rightarrow> Returns p | _ \<Rightarrow> Panics)"

definition as_Service :: "Definition \<Rightarrow> Service option outcome" where
  "as_Service d = (case d of D_Service p \<Rightarrow> Returns p | _ \<Rightarrow> Panics)"

definition as_Struct :: "Definition \<Rightarrow> Struct option outcome" where
  "as_Struct d = (case d of D_Struct p \<Rightarrow> Returns p | _ \<Rightarrow> Panics)"

definition as_Union :: "Definition \<Rightarrow> Union option outcome" where
  "as_Union d = (case d of D_Union p \<Rightarrow> Returns p | _ \<Rightarrow> Panics)"

definition as_Exception :: "Definition \<Rightarrow> Exception option outcome" where
  "as_Exception d = (case d of D_Exception p \<Rightarrow> Returns p | _ \<Rightarrow> Panics)"

definition as_BadDefinition :: "Definition \<Rightarrow> BadDefinition option outcome" where
  "as_BadDefinition d = (case d of D_BadDefinition p \<Rightarrow> Returns p | _ \<Rightarrow> Panics)"

text \<open>
  The body of the first loop of \<^verbatim>\<open>NewDocument\<close>: the switch on \<^verbatim>\<open>header.Type()\<close>, whose
  cases append to one bucket each, then the append to \<^verbatim>\<open>doc.Nodes\<close>.
\<close>

fun appendHeader :: "Document \<Rightarrow> Header \<Rightarrow> Document outcome" where
  "appendHeader (MkDocument fname bhs incs cpps nss cons tds ens svs sts uns exs bds cms
       nodes loc) header =
     (let ty = Header_Type header; nodes' = nodes @ [Header_Node header]
      in if ty = ''Include'' then
           map_outcome (\<lambda>p. MkDocument fname bhs (incs @ [p]) cpps nss cons tds ens svs sts uns
             exs bds cms nodes' loc) (as_Include header)
         else if ty = ''CPPInclude'' then
           map_outcome (\<lambda>p. MkDocument fname bhs incs (cpps @ [p]) nss cons tds ens svs sts uns
             exs bds cms nodes' loc) (as_CPPInclude header)
         else if ty = ''Namespace'' then
           map_outcome (\<lambda>p. MkDocument fname bhs incs cpps (nss @ [p]) cons tds ens svs sts uns
             exs bds cms nodes' loc) (as_Namespace header)
         else if ty = ''BadHeader'' then
           map_outcome (\<lambda>p. MkDocument fname (bhs @ [p]) incs cpps nss cons tds ens svs sts uns
             exs bds cms nodes' loc) (as_BadHeader header)
         else Returns (MkDocument fname bhs incs cpps nss cons tds ens svs sts uns exs bds cms
             nodes' loc))"

text \<open>The body of the second loop: the switch on \<^verbatim>\<open>def.Type()\<close>.\<close>

fun appendDefinition :: "Document \<Rightarrow> Definition \<Rightarrow> Document outcome" where
  "appendDefinition (MkDocument fname bhs incs cpps nss cons tds ens svs sts uns exs bds cms
       nodes loc) def =
     (let ty = Definition_Type def; nodes' = nodes @ [Definition_Node def]
      in if ty = ''Const'' then
           map_outcome (\<lambda>p. MkDocument fname bhs incs cpps nss (cons @ [p]) tds ens svs sts uns
             exs bds cms nodes' loc) (as_Const def)
         else if ty = ''Typedef'' then
           map_outcome (\<lambda>p. MkDocument fname bhs incs cpps nss cons (tds @ [p]) ens svs sts uns
             exs bds cms nodes' loc) (as_Typedef def)
         else if ty = ''Enum'' then
           map_outcome (\<lambda>p. MkDocument fname bhs incs cpps nss cons tds (ens @ [p]) svs sts uns
             exs bds cms nodes' loc) (as_Enum def)
         else if ty = ''Service'' then
           map_outcome (\<lambda>p. MkDocument fname bhs incs cpps nss cons tds ens (svs @ [p]) sts uns
             exs bds cms nodes' loc) (as_Service def)
         else if ty = ''Struct'' then
           map_outcome (\<lambda>p. MkDocument fname bhs incs cpps nss cons tds ens svs (sts @ [p]) uns
             exs bds cms nodes' loc) (as_Struct def)
         else if ty = ''Union'' then
           map_outcome (\<lambda>p. MkDocument fname bhs incs cpps nss cons tds ens svs sts (uns @ [p])
             exs bds cms nodes' loc) (as_Union def)
         else if ty = ''Exception'' then
           map_outcome (\<lambda>p. MkDocument fname bhs incs cpps nss cons tds ens svs sts uns
             (exs @ [p]) bds cms nodes' loc) (as_Exception def)
         else if ty = ''BadDefinition'' then
           map_outcome (\<lambda>p. MkDocument fname bhs incs cpps nss cons tds ens svs sts uns exs
             (bds @ [p]) cms nodes' loc) (as_BadDefinition def)
         else Returns (MkDocument fname bhs incs cpps nss cons tds ens svs sts uns exs bds cms
             nodes' loc))"

text \<open>A loop over a slice whose body may panic.\<close>

fun forEach :: "('s \<Rightarrow> 'a \<Rightarrow> 's outcome) \<Rightarrow> 's \<Rightarrow> 'a list \<Rightarrow> 's outcome" where
  "forEach body s [] = Returns s"
| "forEach body s (x # xs) =
     (case body s x of
        Returns s' \<Rightarrow> forEach body s' xs
      | Panics \<Rightarrow> Panics
      | Diverges \<Rightarrow> Diverges)"

fun setComments :: "Document \<Rightarrow> Comment option list \<Rightarrow> Document" where
  "setComments (MkDocument fname bhs incs cpps nss cons tds ens svs sts uns exs bds cms
       nodes loc) comments =
     MkDocument fname bhs incs cpps nss cons tds ens svs sts uns exs bds comments
       (nodes @ map N_Comment comments) loc"

definition NewDocument ::
  "Header list \<Rightarrow> Definition list \<Rightarrow> Comment option list \<Rightarrow> Location \<Rightarrow> Document outcome" where
  "NewDocument headers defs comments loc =
     (case forEach appendHeader (MkDocument [] [] [] [] [] [] [] [] [] [] [] [] [] [] [] loc)
             headers of
        Returns doc1 \<Rightarrow>
          (case forEach appendDefinition doc1 defs of
             Returns doc2 \<Rightarrow> Returns (setComments doc2 comments)
           | Panics \<Rightarrow> Panics
           | Diverges \<Rightarrow> Diverges)
      | Panics \<Rightarrow> Panics
      | Diverges \<Rightarrow> Diverges)"

section \<open>The notions of the specification\<close>

text \<open>
  A proper descendant of a node is reached by one or more steps of \<^verbatim>\<open>Children()\<close>.
\<close>

inductive descendant :: "Node \<Rightarrow> Node \<Rightarrow> bool" where
  child: "Children n = Returns cs \<Longrightarrow> c \<in> set cs \<Longrightarrow> descendant n c"
| step: "Children n = Returns cs \<Longrightarrow> c \<in> set cs \<Longrightarrow> descendant c d \<Longrightarrow> descendant n d"

text \<open>
  The nodes on which the loop of \<^verbatim>\<open>ChildrenBadNode\<close> meets no nil pointer: the children
  can be listed, and each child is a bad node or is not and can be traversed itself.
\<close>

inductive traversable :: "Node \<Rightarrow> bool" where
  "Children n = Returns cs \<Longrightarrow>
   \<forall>c \<in> set cs. IsBadNode c = Returns True \<or> (IsBadNode c = Returns False \<and> traversable c) \<Longrightarrow>
   traversable n"

text \<open>The headers and definitions of each type, in the order of the input.\<close>

definition Includes_of :: "Header list \<Rightarrow> Include option list" where
  "Includes_of hs = concat (map (\<lambda>h. case h of H_Include p \<Rightarrow> [p] | _ \<Rightarrow> []) hs)"

definition CPPIncludes_of :: "Header list \<Rightarrow> CPPInclude option list" where
  "CPPIncludes_of hs = concat (map (\<lambda>h. case h of H_CPPInclude p \<Rightarrow> [p] | _ \<Rightarrow> []) hs)"

definition Namespaces_of :: "Header list \<Rightarrow> Namespace option list" where
  "Namespaces_of hs = concat (map (\<lambda>h. case h of H_Namespace p \<Rightarrow> [p] | _ \<Rightarrow> []) hs)"

definition BadHeaders_of :: "Header list \<Rightarrow> BadHeader option list" where
  "BadHeaders_of hs = concat (map (\<lambda>h. case h of H_BadHeader p \<Rightarrow> [p] | _ \<Rightarrow> []) hs)"

definition Consts_of :: "Definition list \<Rightarrow> Const option list" where
  "Consts_of ds = concat (map (\<lambda>d. case d of D_Const p \<Rightarrow> [p] | _ \<Rightarrow> []) ds)"

definition Typedefs_of :: "Definition list \<Rightarrow> Typedef option list" where
  "Typedefs_of ds = concat (map (\<lambda>d. case d of D_Typedef p \<Rightarrow> [p] | _ \<Rightarrow> []) ds)"

definition Enums_of :: "Definition list \<Rightarrow> Enum option list" where
  "Enums_of ds = concat (map (\<lambda>d. case d of D_Enum p \<Rightarrow> [p] | _ \<Rightarrow> []) ds)"

definition Services_of :: "Definition list \<Rightarrow> Service option list" where
  "Services_of ds = concat (map (\<lambda>d. case d of D_Service p \<Rightarrow> [p] | _ \<Rightarrow> []) ds)"

definition Structs_of :: "Definition list \<Rightarrow> Struct option list" where
  "Structs_of ds = concat (map (\<lambda>d. case d of D_Struct p \<Rightarrow> [p] | _ \<Rightarrow> []) ds)"

definition Unions_of :: "Definition list \<Rightarrow> Union option list" where
  "Unions_of ds = concat (map (\<lambda>d. case d of D_Union p \<Rightarrow> [p] | _ \<Rightarrow> []) ds)"

definition Exceptions_of :: "Definition list \<Rightarrow> Exception option list" where
  "Exceptions_of ds = concat (map (\<lambda>d. case d of D_Exception p \<Rightarrow> [p] | _ \<Rightarrow> []) ds)"

text \<open>
  A struct \<^verbatim>\<open>Foo\<close> with its keywords, its name and the given fields, for the examples.
\<close>

definition example_Keyword :: "Keyword option" where
  "example_Keyword = Some (NewKeyword [] None zero_Location)"

definition example_Identifier :: "Identifier option" where
  "example_Identifier =
     Some (NewIdentifier (Some (NewIdentifierName ''Foo'' zero_Location)) [] zero_Location)"

definition example_Struct :: "Field option list \<Rightarrow> Struct" where
  "example_Struct flds =
     NewStruct example_Keyword example_Keyword example_Keyword example_Identifier flds
       zero_Location"

section \<open>The claims\<close>

lemmas bad_constructor_defs =
  NewBadHeader_def NewBadInclude_def NewBadCPPInclude_def NewBadNamespace_def
  NewBadDefinition_def NewBadStruct_def NewBadUnion_def NewBadException_def NewBadEnum_def
  NewBadEnumValue_def NewBadService_def NewBadFunction_def NewBadConst_def NewBadTypedef_def
  NewBadField_def NewBadFieldIndex_def NewBadIdentifier_def NewBadConstValue_def
  NewBadLiteral_def NewBadAnnotation_def NewBadComment_def

lemmas valid_constructor_defs =
  NewKeywordLiteral_def NewKeyword_def NewInclude_def NewCPPInclude_def NewNamespace_def
  NewStruct_def NewConst_def NewTypedef_def NewEnum_def NewEnumValue_def NewService_def
  NewThrows_def NewFunction_def NewUnion_def NewException_def NewIdentifierName_def
  NewIdentifier_def NewField_def NewFieldIndex_def NewCppType_def NewFieldType_def
  NewTypeName_def NewConstValue_def NewMapConstValue_def NewLiteralValue_def NewLiteral_def
  NewAnnotations_def NewAnnotation_def NewComment_def

lemmas Children_defs =
  Include_Children_def CPPInclude_Children_def Namespace_Children_def Struct_Children_def
  Const_Children_def Typedef_Children_def Enum_Children_def EnumValue_Children_def
  Service_Children_def Throws_Children_def Function_Children_def Union_Children_def
  Exception_Children_def Identifier_Children_def Field_Children_def CppType_Children_def
  FieldType_Children_def TypeName_Children_def Literal_Children_def Annotations_Children_def
  Annotation_Children_def

subsection \<open>C1: bad nodes and their children\<close>

text \<open>Every bad-node constructor gives a node whose \<^verbatim>\<open>IsBadNode()\<close> is true.\<close>

lemma bad_constructors_IsBadNode:
  "IsBadNode (N_BadHeader (Some (NewBadHeader loc))) = Returns True"
  "IsBadNode (N_Include (Some (NewBadInclude loc))) = Returns True"
  "IsBadNode (N_CPPInclude (Some (NewBadCPPInclude loc))) = Returns True"
  "IsBadNode (N_Namespace (Some (NewBadNamespace loc))) = Returns True"
  "IsBadNode (N_BadDefinition (Some (NewBadDefinition loc))) = Returns True"
  "IsBadNode (N_Struct (Some (NewBadStruct loc))) = Returns True"
  "IsBadNode (N_Union (Some (NewBadUnion loc))) = Returns True"
  "IsBadNode (N_Exception (Some (NewBadException loc))) = Returns True"
  "IsBadNode (N_Enum (Some (NewBadEnum loc))) = Returns True"
  "IsBadNode (N_EnumValue (Some (NewBadEnumValue loc))) = Returns True"
  "IsBadNode (N_Service (Some (NewBadService loc))) = Returns True"
  "IsBadNode (N_Function (Some (NewBadFunction loc))) = Returns True"
  "IsBadNode (N_Const (Some (NewBadConst loc))) = Returns True"
  "IsBadNode (N_Typedef (Some (NewBadTypedef loc))) = Returns True"
  "IsBadNode (N_Field (Some (NewBadField loc))) = Returns True"
  "IsBadNode (N_FieldIndex (Some (NewBadFieldIndex loc))) = Returns True"
  "IsBadNode (N_Identifier (Some (NewBadIdentifier loc))) = Returns True"
  "IsBadNode (N_ConstValue (Some (NewBadConstValue loc))) = Returns True"
  "IsBadNode (N_Literal (Some (NewBadLiteral loc))) = Returns True"
  "IsBadNode (N_Annotation (Some (NewBadAnnotation loc))) = Returns True"
  "IsBadNode (N_Comment (Some (NewBadComment loc))) = Returns True"
  by (simp_all add: deref_def bad_constructor_defs)

text \<open>
  Seven of them have no children: the types whose \<^verbatim>\<open>Children()\<close> returns nil outright or
  tests every field for nil before it appends it.
\<close>

lemma bad_constructors_Children_empty:
  "Children (N_BadHeader (Some (NewBadHeader loc))) = Returns []"
  "Children (N_BadDefinition (Some (NewBadDefinition loc))) = Returns []"
  "Children (N_Field (Some (NewBadField loc))) = Returns []"
  "Children (N_FieldIndex (Some (NewBadFieldIndex loc))) = Returns []"
  "Children (N_ConstValue (Some (NewBadConstValue loc))) = Returns []"
  "Children (N_Literal (Some (NewBadLiteral loc))) = Returns []"
  "Children (N_Comment (Some (NewBadComment loc))) = Returns []"
  by (simp_all add: deref_def bad_constructor_defs Children_defs append_nonnil_def)

text \<open>
  Claim C1 says that every bad-node constructor yields a node with \<^verbatim>\<open>IsBadNode() == true\<close>
  whose \<^verbatim>\<open>Children()\<close> is the empty sequence and never holds a nil entry. The code
  differs for fourteen of the constructors: the \<^verbatim>\<open>Children()\<close> of their types puts
  fields into the slice without a test, and the bad constructor leaves these fields nil.
  The children of a bad \<^verbatim>\<open>Struct\<close> are four nil pointers.
\<close>

theorem bad_constructors_Children_nil_entries:
  "Children (N_Include (Some (NewBadInclude loc))) =
     Returns [N_Keyword K_IncludeKeyword None, N_Literal None]
   \<and> Children (N_CPPInclude (Some (NewBadCPPInclude loc))) =
     Returns [N_Keyword K_CPPIncludeKeyword None, N_Literal None]
   \<and> Children (N_Namespace (Some (NewBadNamespace loc))) =
     Returns [N_Keyword K_NamespaceKeyword None, N_NamespaceScope None, N_Identifier None]
   \<and> Children (N_Struct (Some (NewBadStruct loc))) =
     Returns [N_Keyword K_StructKeyword None, N_Keyword K_LCurKeyword None,
              N_Keyword K_RCurKeyword None, N_Identifier None]
   \<and> Children (N_Union (Some (NewBadUnion loc))) =
     Returns [N_Identifier None, N_Keyword K_UnionKeyword None, N_Keyword K_LCurKeyword None,
              N_Keyword K_RCurKeyword None]
   \<and> Children (N_Exception (Some (NewBadException loc))) =
     Returns [N_Identifier None, N_Keyword K_ExceptionKeyword None,
              N_Keyword K_LCurKeyword None, N_Keyword K_RCurKeyword None]
   \<and> Children (N_Enum (Some (NewBadEnum loc))) = Returns [N_Identifier None]
   \<and> Children (N_EnumValue (Some (NewBadEnumValue loc))) = Returns [N_Identifier None]
   \<and> Children (N_Service (Some (NewBadService loc))) =
     Returns [N_Keyword K_ServiceKeyword None, N_Keyword K_LCurKeyword None,
              N_Keyword K_RCurKeyword None]
   \<and> Children (N_Function (Some (NewBadFunction loc))) =
     Returns [N_Keyword K_LParKeyword None, N_Keyword K_RParKeyword None]
   \<and> Children (N_Const (Some (NewBadConst loc))) =
     Returns [N_Keyword K_ConstKeyword None, N_Keyword K_EqualKeyword None, N_Identifier None,
              N_FieldType None, N_ConstValue None]
   \<and> Children (N_Typedef (Some (NewBadTypedef loc))) =
     Returns [N_Keyword K_TypedefKeyword None, N_FieldType None, N_Identifier None]
   \<and> Children (N_Identifier (Some (NewBadIdentifier loc))) = Returns [N_IdentifierName None]
   \<and> Children (N_Annotation (Some (NewBadAnnotation loc))) =
     Returns [N_Identifier None, N_Literal None, N_Keyword K_EqualKeyword None]"
  by (simp add: deref_def bad_constructor_defs Children_defs append_nonnil_def)

subsection \<open>C2: the buckets of a document\<close>

text \<open>
  What \<^verbatim>\<open>NewDocument\<close> builds, for all inputs: it does not panic, every header and
  definition is in \<^verbatim>\<open>Nodes\<close> in the order of the input, followed by the comments,
  and each bucket but one holds the items of its type. \<^verbatim>\<open>BadDefinitions\<close> is empty.
  A definition that is passed as a header is in \<^verbatim>\<open>Nodes\<close> only.
\<close>

lemmas bucket_defs =
  Includes_of_def CPPIncludes_of_def Namespaces_of_def BadHeaders_of_def Consts_of_def
  Typedefs_of_def Enums_of_def Services_of_def Structs_of_def Unions_of_def Exceptions_of_def

lemmas as_defs =
  as_Include_def as_CPPInclude_def as_Namespace_def as_BadHeader_def as_Const_def
  as_Typedef_def as_Enum_def as_Service_def as_Struct_def as_Union_def as_Exception_def
  as_BadDefinition_def

lemma forEach_appendHeader:
  "forEach appendHeader
     (MkDocument fname bhs incs cpps nss cons tds ens svs sts uns exs bds cms nodes loc) hs =
   Returns (MkDocument fname (bhs @ BadHeaders_of hs) (incs @ Includes_of hs)
     (cpps @ CPPIncludes_of hs) (nss @ Namespaces_of hs) cons tds ens svs sts uns exs bds cms
     (nodes @ map Header_Node hs) loc)"
proof (induction hs arbitrary: bhs incs cpps nss nodes)
  case Nil
  show ?case by (simp add: bucket_defs)
next
  case (Cons h hs)
  show ?case
  proof (cases h)
    case (H_Definition d)
    then show ?thesis
      by (cases d) (simp_all add: Cons.IH bucket_defs)
  qed (simp_all add: Cons.IH bucket_defs as_defs)
qed

lemma forEach_appendDefinition:
  "forEach appendDefinition
     (MkDocument fname bhs incs cpps nss cons tds ens svs sts uns exs bds cms nodes loc) ds =
   Returns (MkDocument fname bhs incs cpps nss (cons @ Consts_of ds) (tds @ Typedefs_of ds)
     (ens @ Enums_of ds) (svs @ Services_of ds) (sts @ Structs_of ds) (uns @ Unions_of ds)
     (exs @ Exceptions_of ds) bds cms (nodes @ map Definition_Node ds) loc)"
proof (induction ds arbitrary: cons tds ens svs sts uns exs nodes)
  case Nil
  show ?case by (simp add: bucket_defs)
next
  case (Cons d ds)
  show ?case
    by (cases d) (simp_all add: Cons.IH bucket_defs as_defs)
qed

lemma NewDocument_buckets:
  "NewDocument hs ds cms loc =
   Returns (MkDocument [] (BadHeaders_of hs) (Includes_of hs) (CPPIncludes_of hs)
     (Namespaces_of hs) (Consts_of ds) (Typedefs_of ds) (Enums_of ds) (Services_of ds)
     (Structs_of ds) (Unions_of ds) (Exceptions_of ds) [] cms
     (map Header_Node hs @ map Definition_Node ds @ map N_Comment cms) loc)"
  by (simp add: NewDocument_def forEach_appendHeader forEach_appendDefinition)

text \<open>
  Claim C2 says that \<^verbatim>\<open>NewDocument\<close> puts every definition into the bucket of its type, a
  \<^verbatim>\<open>BadDefinition\<close> into \<^verbatim>\<open>BadDefinitions\<close>. The switch has the case
  \<^verbatim>\<open>"BadDefinition"\<close>, but \<^verbatim>\<open>BadDefinition.Type()\<close> returns \<^verbatim>\<open>"Definition"\<close>: a bad
  definition reaches \<^verbatim>\<open>Nodes\<close> and no bucket.
\<close>

theorem NewDocument_BadDefinition_no_bucket:
  "NewDocument [] [D_BadDefinition (Some (NewBadDefinition loc))] [] loc' =
     Returns (MkDocument [] [] [] [] [] [] [] [] [] [] [] [] [] []
                [N_BadDefinition (Some (NewBadDefinition loc))] loc')"
  by (simp add: NewDocument_def)

subsection \<open>C3: the end of a span of several lines\<close>

text \<open>
  The end of the span of a text with a newline, for a start column other than 0 and a
  text shorter than \<open>2 ^ 63\<close> bytes: the line and the byte offset are as the
  specification says, the column is the number of runes after the last newline plus 2.
\<close>

lemma LastIndexFrom_absent: "c \<notin> set s \<Longrightarrow> LastIndexFrom i s c = - 1"
  by (induction s arbitrary: i) (auto simp: Let_def)

lemma LastIndexFrom_last:
  "c \<notin> set suf \<Longrightarrow> 0 \<le> i \<Longrightarrow> LastIndexFrom i (pre @ c # suf) c = i + int (length pre)"
proof (induction pre arbitrary: i)
  case Nil
  then show ?case by (simp add: Let_def LastIndexFrom_absent)
next
  case (Cons x pre)
  from Cons.prems have "LastIndexFrom (i + 1) (pre @ c # suf) c = i + 1 + int (length pre)"
    by (intro Cons.IH) simp_all
  with Cons.prems show ?case by (simp add: Let_def)
qed

lemma RuneCount_newline: "RuneCount (newline # s) = Suc (RuneCount s)"
  by (simp add: rune_width_def newline_def)

lemma NewLocation_multiline:
  assumes "col p \<noteq> 0" and "newline \<notin> set suf" and "length (pre @ newline # suf) < 2 ^ 63"
  shows "EndPos (NewLocation p (pre @ newline # suf)) =
     \<lparr>Line = line p + of_nat (strings_Count (pre @ newline # suf) newline),
      Col = of_nat (RuneCount suf) + 2,
      Offset = offset p + of_nat (length (pre @ newline # suf))\<rparr>"
proof -
  let ?txt = "pre @ newline # suf"
  have idx: "strings_LastIndexByte ?txt newline = int (length pre)"
    using assms(2) by (simp add: strings_LastIndexByte_def LastIndexFrom_last)
  have cnt: "0 < strings_Count ?txt newline" "strings_Count ?txt newline < 2 ^ 63"
    using assms(3) length_filter_le [of "\<lambda>x. x = newline" ?txt]
    by (simp_all add: strings_Count_def)
  then have nz: "(of_nat (strings_Count ?txt newline) :: go_int) \<noteq> 0"
    by (intro of_nat_neq_0) simp_all
  show ?thesis
    using assms(1) nz
    by (simp add: NewLocation_def Let_def idx ConvertPosition_def RuneCount_newline
          del: RuneCount.simps)
qed

text \<open>
  Claim C3 says that the span of a text with a newline ends in the column that is the
  number of runes after the last newline, plus one: line 3, column 2 for the text
  \<^verbatim>\<open>"struct Foo {\n  1: string a\n}"\<close> from line 1, column 1. The code counts the runes of
  the slice that starts at the last newline, not after it, and ends in column 3.
\<close>

theorem NewLocation_multiline_end:
  "EndPos (NewLocation \<lparr>line = 1, col = 1, offset = 0\<rparr>
             (''struct Foo {'' @ [newline] @ ''  1: string a'' @ [newline] @ ''}'')) =
     \<lparr>Line = 3, Col = 3, Offset = 28\<rparr>"
  by (simp add: NewLocation_def ConvertPosition_def strings_Count_def
        strings_LastIndexByte_def newline_def rune_width_def Let_def)

subsection \<open>C4: the check of the subtree\<close>

text \<open>
  When \<^verbatim>\<open>ChildrenBadNode\<close> returns, it returns whether a proper descendant is a bad node;
  and it returns on every node on which its loop meets no nil pointer.
\<close>

lemma Children_not_Diverges: "Children n \<noteq> Diverges"
  by (cases n) (auto simp: deref_def split: option.splits)

lemma ChildrenBadNode_scan:
  "Children n = Returns cs \<Longrightarrow> ChildrenBadNode n = scanChildren ChildrenBadNode cs"
  by (cases n) (auto simp: deref_def split: option.splits)

lemma ChildrenBadNode_Panics: "Children n = Panics \<Longrightarrow> ChildrenBadNode n = Panics"
  by (cases n) (auto simp: deref_def split: option.splits)

lemma scanChildren_True:
  "scanChildren g cs = Returns True \<Longrightarrow>
   \<exists>c \<in> set cs. IsBadNode c = Returns True \<or> (IsBadNode c = Returns False \<and> g c = Returns True)"
  by (induction cs) (auto split: outcome.splits if_splits)

lemma scanChildren_False:
  "scanChildren g cs = Returns False \<Longrightarrow> c \<in> set cs \<Longrightarrow>
   IsBadNode c = Returns False \<and> g c = Returns False"
  by (induction cs) (auto split: outcome.splits if_splits)

lemma scanChildren_returns:
  "(\<And>c. c \<in> set cs \<Longrightarrow>
      IsBadNode c = Returns True \<or> (IsBadNode c = Returns False \<and> (\<exists>b. g c = Returns b))) \<Longrightarrow>
   \<exists>b. scanChildren g cs = Returns b"
proof (induction cs)
  case Nil
  show ?case by (rule exI [of _ False]) simp
next
  case (Cons c cs)
  have tail: "\<exists>b. scanChildren g cs = Returns b"
    by (rule Cons.IH) (rule Cons.prems, simp)
  have "IsBadNode c = Returns True
        \<or> (IsBadNode c = Returns False \<and> (\<exists>b. g c = Returns b))"
    by (rule Cons.prems) simp
  with tail show ?case by auto
qed

lemma ChildrenBadNode_sound:
  "ChildrenBadNode n = Returns b \<Longrightarrow> b = (\<exists>d. descendant n d \<and> IsBadNode d = Returns True)"
proof (induction n arbitrary: b rule: measure_induct_rule [of weight])
  case (less n)
  obtain cs where cs: "Children n = Returns cs"
    using less.prems ChildrenBadNode_Panics [of n] Children_not_Diverges [of n]
    by (cases "Children n") auto
  then have scan: "scanChildren ChildrenBadNode cs = Returns b"
    using less.prems by (simp add: ChildrenBadNode_scan)
  show ?case
  proof (cases b)
    case True
    with scan have "scanChildren ChildrenBadNode cs = Returns True" by simp
    from scanChildren_True [OF this] obtain c where c: "c \<in> set cs"
      and "IsBadNode c = Returns True
           \<or> (IsBadNode c = Returns False \<and> ChildrenBadNode c = Returns True)"
      by blast
    then consider "IsBadNode c = Returns True" | "ChildrenBadNode c = Returns True"
      by blast
    then have "\<exists>d. descendant n d \<and> IsBadNode d = Returns True"
    proof cases
      case 1
      with cs c show ?thesis by (blast intro: descendant.child)
    next
      case 2
      have "weight c < weight n" using cs c by (rule Children_weight)
      from less.IH [OF this 2] obtain d where "descendant c d" "IsBadNode d = Returns True"
        by blast
      with cs c show ?thesis by (blast intro: descendant.step)
    qed
    with True show ?thesis by simp
  next
    case False
    have none: "\<not> (descendant n d \<and> IsBadNode d = Returns True)" for d
    proof
      assume d: "descendant n d \<and> IsBadNode d = Returns True"
      then have "descendant n d" ..
      then show False
      proof (cases rule: descendant.cases)
        case (child cs')
        with cs have "d \<in> set cs" by simp
        with scan False have "IsBadNode d = Returns False"
          using scanChildren_False [of ChildrenBadNode cs d] by simp
        with d show False by simp
      next
        case (step cs' c)
        with cs have c: "c \<in> set cs" by simp
        with scan False have cbn: "ChildrenBadNode c = Returns False"
          using scanChildren_False [of ChildrenBadNode cs c] by simp
        have "weight c < weight n" using cs c by (rule Children_weight)
        from less.IH [OF this cbn] step d show False by blast
      qed
    qed
    with False show ?thesis by blast
  qed
qed

lemma ChildrenBadNode_returns: "traversable n \<Longrightarrow> \<exists>b. ChildrenBadNode n = Returns b"
proof (induction rule: traversable.induct)
  case (1 n cs)
  have "\<exists>b. scanChildren ChildrenBadNode cs = Returns b"
    by (rule scanChildren_returns) (use 1 in blast)
  with 1 show ?case by (simp add: ChildrenBadNode_scan)
qed

lemma ChildrenBadNode_traversable:
  "traversable n \<Longrightarrow>
   ChildrenBadNode n = Returns (\<exists>d. descendant n d \<and> IsBadNode d = Returns True)"
  using ChildrenBadNode_returns [of n] ChildrenBadNode_sound [of n] by auto

text \<open>
  A struct that is not bad with one bad field reports false for itself and true for its
  subtree; without the field it reports false for both.
\<close>

lemma Struct_with_bad_Field:
  "IsBadNode (N_Struct (Some (example_Struct [Some (NewBadField zero_Location)]))) = Returns False"
  "ChildrenBadNode (N_Struct (Some (example_Struct [Some (NewBadField zero_Location)]))) =
     Returns True"
  "ChildrenBadNode (N_Struct (Some (example_Struct []))) = Returns False"
  by (simp_all add: example_Struct_def example_Keyword_def example_Identifier_def deref_def
        NewStruct_def NewKeyword_def NewIdentifier_def NewIdentifierName_def NewBadField_def
        Struct_Children_def Identifier_Children_def append_nonnil_def)

lemma traversable_leaf: "Children n = Returns [] \<Longrightarrow> traversable n"
  by (rule traversable.intros [of n "[]"]) simp_all

lemma traversable_example:
  "traversable (N_Struct (Some (example_Struct [Some (NewBadField zero_Location)])))"
proof -
  have kw: "traversable (N_Keyword kind example_Keyword)" for kind
    by (rule traversable_leaf) (simp add: example_Keyword_def deref_def)
  have name: "traversable (N_IdentifierName p)" for p
    by (rule traversable_leaf) simp
  have ident: "traversable (N_Identifier example_Identifier)"
    by (rule traversable.intros [of _ "[N_IdentifierName (Some (NewIdentifierName ''Foo'' zero_Location))]"])
       (simp_all add: example_Identifier_def deref_def Identifier_Children_def
          NewIdentifier_def NewIdentifierName_def name)
  show ?thesis
    by (rule traversable.intros [of _ "[N_Keyword K_StructKeyword example_Keyword,
           N_Keyword K_LCurKeyword example_Keyword, N_Keyword K_RCurKeyword example_Keyword,
           N_Identifier example_Identifier, N_Field (Some (NewBadField zero_Location))]"])
       (simp_all add: example_Struct_def deref_def Struct_Children_def NewStruct_def
          append_nonnil_def kw ident,
        simp_all add: example_Keyword_def example_Identifier_def NewKeyword_def
          NewIdentifier_def NewBadField_def NewIdentifierName_def)
qed

lemma example_descendant_bad:
  "ChildrenBadNode (N_Struct (Some (example_Struct [Some (NewBadField zero_Location)]))) =
     Returns (\<exists>d. descendant (N_Struct (Some (example_Struct [Some (NewBadField zero_Location)]))) d
                  \<and> IsBadNode d = Returns True)"
  using ChildrenBadNode_traversable [OF traversable_example] .

text \<open>
  Claim C4 says that \<^verbatim>\<open>ChildrenBadNode(n)\<close> returns true exactly when a proper descendant
  of \<open>n\<close> is a bad node, for every node that the constructors build. On a bad
  \<^verbatim>\<open>Struct\<close> the method does not return: the first child is a nil pointer (see C1), and
  \<^verbatim>\<open>IsBadNode\<close> reads it. No child there answers \<^verbatim>\<open>IsBadNode\<close> with true, so that the
  claim asks for false.
\<close>

theorem ChildrenBadNode_bad_Struct_panics:
  "ChildrenBadNode (N_Struct (Some (NewBadStruct loc))) = Panics
   \<and> map_outcome (map IsBadNode) (Children (N_Struct (Some (NewBadStruct loc)))) =
       Returns [Panics, Panics, Panics, Panics]"
  by (simp add: deref_def NewBadStruct_def Struct_Children_def append_nonnil_def)

subsection \<open>C5: the flag of a node and the flags of its children\<close>

text \<open>
  Claim C5 says that the flag of a node built by a valid-path constructor never depends
  on its children, and that an \<^verbatim>\<open>Identifier\<close> built by \<^verbatim>\<open>NewIdentifier\<close> from a non-nil
  \<^verbatim>\<open>IdentifierName\<close> is not bad even when that name is. \<^verbatim>\<open>NewIdentifier\<close> sets the flag to
  \<^verbatim>\<open>name == nil || name.BadNode\<close>: with the name that \<^verbatim>\<open>NewIdentifierName\<close> builds from
  the empty text, which is bad, the identifier is bad.
\<close>

theorem NewIdentifier_bad_name_counterexample:
  "IsBadNode (N_IdentifierName (Some (NewIdentifierName [] zero_Location))) = Returns True
   \<and> IsBadNode (N_Identifier (Some (NewIdentifier
         (Some (NewIdentifierName [] zero_Location)) [] zero_Location))) = Returns True"
  by (simp add: deref_def NewIdentifier_def NewIdentifierName_def)

text \<open>
  Claim C5, amended: the flag of a node built by a valid-path constructor is false
  whatever its children are, with two exceptions. The flag of an \<^verbatim>\<open>IdentifierName\<close> is
  true exactly when its text is empty, and the flag of an \<^verbatim>\<open>Identifier\<close> built by
  \<^verbatim>\<open>NewIdentifier\<close> is true exactly when its name is nil or is itself a bad node.
  (\<^verbatim>\<open>NewCppType\<close> is left out: see C6.)
\<close>

theorem valid_constructors_IsBadNode:
  "IsBadNode (N_KeywordLiteral (Some (NewKeywordLiteral cur))) = Returns False
   \<and> IsBadNode (N_Keyword kind (Some (NewKeyword comments literal loc))) = Returns False
   \<and> IsBadNode (N_Include (Some (NewInclude keyword path loc))) = Returns False
   \<and> IsBadNode (N_CPPInclude (Some (NewCPPInclude keyword path loc))) = Returns False
   \<and> IsBadNode (N_Namespace (Some (NewNamespace keyword language ident annotations loc))) =
       Returns False
   \<and> IsBadNode (N_Struct (Some (NewStruct keyword lCur rCur ident flds loc))) = Returns False
   \<and> IsBadNode (N_Const (Some (NewConst keyword equalKeyword sep ident ft cv loc))) =
       Returns False
   \<and> IsBadNode (N_Typedef (Some (NewTypedef keyword ft ident loc))) = Returns False
   \<and> IsBadNode (N_Enum (Some (NewEnum keyword lCur rCur ident vals loc))) = Returns False
   \<and> IsBadNode (N_EnumValue (Some (NewEnumValue sep equalKeyword ident cv v annotations loc))) =
       Returns False
   \<and> IsBadNode (N_Service (Some (NewService keyword extendsKeyword lCur rCur ident extends fns
         loc))) = Returns False
   \<and> IsBadNode (N_Throws (Some (NewThrows keyword lPar rPar flds loc))) = Returns False
   \<and> IsBadNode (N_Function (Some (NewFunction lPar rPar sep ident oneway void ft flds throws
         comments endLineComments annotations loc))) = Returns False
   \<and> IsBadNode (N_Union (Some (NewUnion keyword lCur rCur ident flds loc))) = Returns False
   \<and> IsBadNode (N_Exception (Some (NewException keyword lCur rCur ident flds loc))) =
       Returns False
   \<and> IsBadNode (N_Field (Some (NewField equalKeyword sep comments endLineComments annotations
         index required ft ident cv loc))) = Returns False
   \<and> IsBadNode (N_FieldIndex (Some (NewFieldIndex keyword n comments loc))) = Returns False
   \<and> IsBadNode (N_FieldType (Some (NewFieldType lPoint rPoint comma cpp tn kt vt loc))) =
       Returns False
   \<and> IsBadNode (N_TypeName (Some (NewTypeName name p))) = Returns False
   \<and> IsBadNode (N_ConstValue (Some (NewConstValue name av loc))) = Returns False
   \<and> IsBadNode (N_ConstValue (Some (NewMapConstValue k cv loc))) = Returns False
   \<and> IsBadNode (N_LiteralValue (Some (NewLiteralValue name loc))) = Returns False
   \<and> IsBadNode (N_Literal (Some (NewLiteral comments lv quote loc))) = Returns False
   \<and> IsBadNode (N_Annotations (Some (NewAnnotations lPar rPar annos loc))) = Returns False
   \<and> IsBadNode (N_Annotation (Some (NewAnnotation equalKeyword sep ident lit loc))) =
       Returns False
   \<and> IsBadNode (N_Comment (Some (NewComment name style loc))) = Returns False
   \<and> IsBadNode (N_Document doc) = Returns False
   \<and> IsBadNode (N_IdentifierName (Some (NewIdentifierName name loc))) = Returns (name = [])
   \<and> IsBadNode (N_Identifier (Some (NewIdentifier idname comments loc))) =
       Returns (case idname of None \<Rightarrow> True | Some n \<Rightarrow> IdentifierName.BadNode n)"
  by (simp add: deref_def valid_constructor_defs)

subsection \<open>C6: \<^verbatim>\<open>IsBadNode\<close> returns\<close>

lemma CppType_IsBadNode_Some_False: "CppType_IsBadNode c = Some b \<Longrightarrow> False"
  by (rule CppType_IsBadNode.raw_induct [where P = "\<lambda>c b. False"])

text \<open>
  Claim C6 says that \<^verbatim>\<open>IsBadNode\<close> terminates on every node and returns the stored flag,
  on a \<^verbatim>\<open>CppType\<close> too. \<^verbatim>\<open>CppType.IsBadNode\<close> returns \<^verbatim>\<open>c.IsBadNode()\<close>, not
  \<^verbatim>\<open>c.BadNode\<close>: it calls itself and returns on no receiver.
\<close>

theorem CppType_IsBadNode_never_returns:
  "CppType_IsBadNode c = None \<and> IsBadNode (N_CppType c) = Diverges"
proof -
  have "CppType_IsBadNode c = None"
    by (cases "CppType_IsBadNode c") (auto dest: CppType_IsBadNode_Some_False)
  then show ?thesis by simp
qed

subsection \<open>C7: \<^verbatim>\<open>Contains\<close> is half-open\<close>

lemma Contains_line_col:
  "Contains (Some loc) p \<longleftrightarrow>
     line_col (StartPos loc) \<le> line_col p \<and> line_col p < line_col (EndPos loc)"
  by (auto simp add: Contains_def Less_def Equal_def Greater_def line_col_def word_sless_alt
        less_prod_def less_eq_prod_def word_eq_iff_signed [where 'a = int])

text \<open>
  Claim C7: \<^verbatim>\<open>Contains\<close> is false for the nil location, and for a location it is true
  exactly when the position is at or after the start and before the end, in the order by
  line and column. So for a location whose start is before its end, it is true at the
  start, false at the end, and true at the last position before the end (a position
  below the end that every position below the end is at or below).
\<close>

theorem Contains_half_open:
  "Contains None p = False
   \<and> (Contains (Some loc) p \<longleftrightarrow>
        line_col (StartPos loc) \<le> line_col p \<and> line_col p < line_col (EndPos loc))
   \<and> (line_col (StartPos loc) < line_col (EndPos loc) \<longrightarrow>
        Contains (Some loc) (StartPos loc)
        \<and> \<not> Contains (Some loc) (EndPos loc)
        \<and> (\<forall>q. line_col q < line_col (EndPos loc)
                 \<and> (\<forall>r. line_col r < line_col (EndPos loc) \<longrightarrow> line_col r \<le> line_col q)
               \<longrightarrow> Contains (Some loc) q))"
proof (intro conjI impI allI)
  show "Contains None p = False"
    by (simp add: Contains_def)
  show "Contains (Some loc) p \<longleftrightarrow>
          line_col (StartPos loc) \<le> line_col p \<and> line_col p < line_col (EndPos loc)"
    by (rule Contains_line_col)
next
  assume "line_col (StartPos loc) < line_col (EndPos loc)"
  then show "Contains (Some loc) (StartPos loc)"
    by (simp add: Contains_line_col)
next
  show "\<not> Contains (Some loc) (EndPos loc)"
    by (simp add: Contains_line_col)
next
  fix q
  assume lt: "line_col (StartPos loc) < line_col (EndPos loc)"
    and q: "line_col q < line_col (EndPos loc)
            \<and> (\<forall>r. line_col r < line_col (EndPos loc) \<longrightarrow> line_col r \<le> line_col q)"
  from q lt have "line_col (StartPos loc) \<le> line_col q"
    by blast
  with q show "Contains (Some loc) q"
    by (simp add: Contains_line_col)
qed

theorem Contains_half_open_witness:
  "line_col (StartPos \<lparr>StartPos = \<lparr>Line = 1, Col = 1, Offset = 0\<rparr>,
                       EndPos = \<lparr>Line = 1, Col = 8, Offset = 7\<rparr>\<rparr>)
     < line_col (EndPos \<lparr>StartPos = \<lparr>Line = 1, Col = 1, Offset = 0\<rparr>,
                         EndPos = \<lparr>Line = 1, Col = 8, Offset = 7\<rparr>\<rparr>)
   \<and> Contains (Some \<lparr>StartPos = \<lparr>Line = 1, Col = 1, Offset = 0\<rparr>,
                     EndPos = \<lparr>Line = 1, Col = 8, Offset = 7\<rparr>\<rparr>)
        \<lparr>Line = 1, Col = 1, Offset = 0\<rparr>
   \<and> \<not> Contains (Some \<lparr>StartPos = \<lparr>Line = 1, Col = 1, Offset = 0\<rparr>,
                       EndPos = \<lparr>Line = 1, Col = 8, Offset = 7\<rparr>\<rparr>)
        \<lparr>Line = 1, Col = 8, Offset = 7\<rparr>
   \<and> Contains (Some \<lparr>StartPos = \<lparr>Line = 1, Col = 1, Offset = 0\<rparr>,
                     EndPos = \<lparr>Line = 1, Col = 8, Offset = 7\<rparr>\<rparr>)
        \<lparr>Line = 1, Col = 7, Offset = 6\<rparr>"
proof -
  let ?s = "\<lparr>Line = 1, Col = 1, Offset = 0\<rparr>"
  let ?e = "\<lparr>Line = 1, Col = 8, Offset = 7\<rparr>"
  let ?q = "\<lparr>Line = 1, Col = 7, Offset = 6\<rparr>"
  let ?loc = "\<lparr>StartPos = ?s, EndPos = ?e\<rparr>"
  have lt: "line_col (StartPos ?loc) < line_col (EndPos ?loc)"
    by (simp add: line_col_def less_prod_def)
  have q: "line_col ?q < line_col (EndPos ?loc)
           \<and> (\<forall>r. line_col r < line_col (EndPos ?loc) \<longrightarrow> line_col r \<le> line_col ?q)"
    by (auto simp add: line_col_def less_prod_def less_eq_prod_def)
  from Contains_half_open [of ?s ?loc] lt q
  have "Contains (Some ?loc) (StartPos ?loc) \<and> \<not> Contains (Some ?loc) (EndPos ?loc)
        \<and> Contains (Some ?loc) ?q"
    by blast
  with lt show ?thesis by simp
qed

subsection \<open>C8: the order of the children\<close>

text \<open>
  The children of the five declarations, built by their constructors and given comments
  and annotations by their setters. \<^verbatim>\<open>Struct\<close> and \<^verbatim>\<open>Service\<close> list keywords, names,
  elements, comments and annotations in this order; \<^verbatim>\<open>Union\<close> and \<^verbatim>\<open>Exception\<close> list
  the name before the keywords; \<^verbatim>\<open>Enum\<close> lists no keyword.
\<close>

lemma Struct_Children_order:
  "Children (N_Struct (Some (Struct_SetAnnotations
       (Struct_SetComments (NewStruct keyword lCur rCur ident flds loc) cs es) annos))) =
     Returns ([N_Keyword K_StructKeyword keyword, N_Keyword K_LCurKeyword lCur,
               N_Keyword K_RCurKeyword rCur, N_Identifier ident]
              @ map N_Field flds @ map N_Comment cs @ map N_Comment es
              @ append_nonnil N_Annotations annos)"
  by (simp add: deref_def Struct_Children_def Struct_SetComments_def Struct_SetAnnotations_def
        NewStruct_def)

lemma Service_Children_order:
  "Children (N_Service (Some (Service_SetAnnotations
       (Service_SetComments (NewService keyword extendsKeyword lCur rCur ident extends fns loc)
          cs es) annos))) =
     Returns ([N_Keyword K_ServiceKeyword keyword, N_Keyword K_LCurKeyword lCur,
               N_Keyword K_RCurKeyword rCur]
              @ append_nonnil (N_Keyword K_ExtendsKeyword) extendsKeyword
              @ append_nonnil N_Identifier ident @ append_nonnil N_Identifier extends
              @ map N_Function fns @ map N_Comment cs @ map N_Comment es
              @ append_nonnil N_Annotations annos)"
  by (simp add: deref_def Service_Children_def Service_SetComments_def
        Service_SetAnnotations_def NewService_def)

lemma Union_Children_order:
  "Children (N_Union (Some (Union_SetAnnotations
       (Union_SetComments (NewUnion keyword lCur rCur ident flds loc) cs es) annos))) =
     Returns ([N_Identifier ident, N_Keyword K_UnionKeyword keyword,
               N_Keyword K_LCurKeyword lCur, N_Keyword K_RCurKeyword rCur]
              @ map N_Field flds @ map N_Comment cs @ map N_Comment es
              @ map N_Comment cs @ map N_Comment es
              @ append_nonnil N_Annotations annos)"
  by (simp add: deref_def Union_Children_def Union_SetComments_def Union_SetAnnotations_def
        NewUnion_def)

lemma Exception_Children_order:
  "Children (N_Exception (Some (Exception_SetAnnotations
       (Exception_SetComments (NewException keyword lCur rCur ident flds loc) cs es) annos))) =
     Returns ([N_Identifier ident, N_Keyword K_ExceptionKeyword keyword,
               N_Keyword K_LCurKeyword lCur, N_Keyword K_RCurKeyword rCur]
              @ map N_Field flds @ map N_Comment cs @ map N_Comment es
              @ append_nonnil N_Annotations annos)"
  by (simp add: deref_def Exception_Children_def Exception_SetComments_def
        Exception_SetAnnotations_def NewException_def)

lemma Enum_Children_order:
  "Children (N_Enum (Some (Enum_SetAnnotations
       (Enum_SetComments (NewEnum keyword lCur rCur ident vals loc) cs es) annos))) =
     Returns ([N_Identifier ident]
              @ map N_EnumValue vals @ map N_Comment cs @ map N_Comment es
              @ append_nonnil N_Annotations annos)"
  by (simp add: deref_def Enum_Children_def Enum_SetComments_def Enum_SetAnnotations_def
        NewEnum_def)

text \<open>
  Claim C8 says that the \<^verbatim>\<open>Children()\<close> of a composite declaration are its keywords, then
  its identifier, then its elements, then its comments, each once, then its annotations.
  \<^verbatim>\<open>Struct.Children\<close> does that. \<^verbatim>\<open>Union.Children\<close> starts with the identifier and runs
  the two loops over the comments twice: a comment of a union is a child two times.
\<close>

theorem Union_Children_comment_twice:
  "Children (N_Union (Some (Union_SetComments (NewUnion keyword lCur rCur ident [] loc) [c] []))) =
     Returns [N_Identifier ident, N_Keyword K_UnionKeyword keyword, N_Keyword K_LCurKeyword lCur,
              N_Keyword K_RCurKeyword rCur, N_Comment c, N_Comment c]"
  by (simp add: deref_def Union_Children_def Union_SetComments_def NewUnion_def
        append_nonnil_def)

subsection \<open>C9: the span of the empty text\<close>

text \<open>
  Claim C9: for a start position with line and column at least 1, the span of the empty
  text ends where it starts, in line, column and byte offset.
\<close>

theorem NewLocation_empty_text:
  "1 \<le>s line p \<Longrightarrow> 1 \<le>s col p \<Longrightarrow>
     EndPos (NewLocation p []) = StartPos (NewLocation p [])
     \<and> StartPos (NewLocation p []) = ConvertPosition p"
  by (auto simp add: NewLocation_def ConvertPosition_def strings_Count_def
        strings_LastIndexByte_def Let_def word_sle_eq)

theorem NewLocation_empty_text_witness:
  "(1 :: go_int) \<le>s 1
   \<and> EndPos (NewLocation \<lparr>line = 1, col = 1, offset = 0\<rparr> []) = \<lparr>Line = 1, Col = 1, Offset = 0\<rparr>
   \<and> StartPos (NewLocation \<lparr>line = 1, col = 1, offset = 0\<rparr> []) =
       \<lparr>Line = 1, Col = 1, Offset = 0\<rparr>"
proof -
  have h: "(1 :: go_int) \<le>s 1" by simp
  have "1 \<le>s line \<lparr>line = 1 :: go_int, col = 1 :: go_int, offset = 0 :: go_int\<rparr>"
       "1 \<le>s col \<lparr>line = 1 :: go_int, col = 1 :: go_int, offset = 0 :: go_int\<rparr>"
    by simp_all
  from NewLocation_empty_text [OF this] h show ?thesis
    by (simp add: ConvertPosition_def)
qed

subsection \<open>C10: a constant value has no children\<close>

text \<open>
  Claim C10: the \<^verbatim>\<open>Children()\<close> of a \<^verbatim>\<open>ConstValue\<close> is empty and its
  \<^verbatim>\<open>ChildrenBadNode()\<close> is false, however the value was built; a bad \<^verbatim>\<open>ConstValue\<close> in
  the \<^verbatim>\<open>Key\<close> or \<^verbatim>\<open>Value\<close> slot of a pair is not reported by the pair.
\<close>

theorem ConstValue_Children_empty:
  "Children (N_ConstValue c) = Returns []
   \<and> ChildrenBadNode (N_ConstValue c) = Returns False
   \<and> IsBadNode (N_ConstValue (Some (NewBadConstValue loc))) = Returns True
   \<and> ChildrenBadNode (N_ConstValue (Some (NewMapConstValue (Some (NewBadConstValue loc)) v loc')))
       = Returns False
   \<and> ChildrenBadNode (N_ConstValue (Some (NewMapConstValue k (Some (NewBadConstValue loc)) loc')))
       = Returns False"
  by (simp add: deref_def NewBadConstValue_def)

end
